theory Spec2Isabelle
  imports Main
begin

section \<open>Values and exceptions\<close>

text \<open>
  Python \<^verbatim>\<open>bytes\<close> and \<^verbatim>\<open>bytearray\<close> values are lists of 8-bit characters.
  Inode numbers, file handles, message ids and sizes are natural numbers; the open
  counts are integers, because \<^verbatim>\<open>release\<close> decrements a \<^verbatim>\<open>defaultdict(int)\<close>
  without looking at the old value.
\<close>

type_synonym bytes = "char list"

datatype errno = ENOENT | EISDIR | ENOTDIR | ENOTEMPTY | EINVAL | EIO

text \<open>
  The exceptions that the modelled code can raise. \<open>FUSEError\<close> is the only one the
  kernel channel understands; the source never raises it with \<open>EIO\<close>.
\<close>

datatype exn =
    FUSEError errno
  | NoSuchRowError
  | NoUniqueValueError
  | IntegrityError
  | UnicodeDecodeError
  | InvalidToken
  | ValueError
  | AttributeError
  | TypeError

section \<open>The metadata store\<close>

text \<open>
  The three tables of \<^verbatim>\<open>init_tables\<close>. A table is the list of its rows. The
  \<^verbatim>\<open>data\<close> column of \<^verbatim>\<open>inodes\<close> is never read or written by the program and is
  left out. \<open>contents_seq\<close> is the \<^verbatim>\<open>AUTOINCREMENT\<close> counter of \<^verbatim>\<open>contents\<close>.
\<close>

record inode_row =
  i_id :: nat
  i_uid :: nat
  i_gid :: nat
  i_mode :: nat
  i_mtime_ns :: nat
  i_atime_ns :: nat
  i_ctime_ns :: nat
  i_target :: "bytes option"
  i_size :: nat
  i_rdev :: nat

record contents_row =
  c_rowid :: nat
  c_name :: bytes
  c_inode :: nat
  c_parent_inode :: nat

record message_row =
  m_id :: nat
  m_inode :: nat

record database =
  inodes :: "inode_row list"
  contents :: "contents_row list"
  telegram_messages :: "message_row list"
  contents_seq :: nat

datatype inode_col =
  Col_size | Col_mode | Col_uid | Col_gid | Col_atime_ns | Col_mtime_ns | Col_ctime_ns

text \<open>
  The data-changing statements of the source, one constructor per statement text:
  \<^item> \<open>INSERT_inodes_id id mode uid gid now\<close>: the root row of \<^verbatim>\<open>init_tables\<close>;
  \<^item> \<open>INSERT_inodes uid gid mode now target rdev\<close>: \<^verbatim>\<open>_create\<close>, the id chosen by the engine;
  \<^item> \<open>INSERT_contents name inode parent_inode\<close>;
  \<^item> \<open>INSERT_telegram_messages id inode\<close>;
  \<^item> \<open>DELETE_inodes id\<close>: \<^verbatim>\<open>DELETE FROM inodes WHERE id=?\<close>;
  \<^item> \<open>DELETE_contents name parent_inode\<close>: \<^verbatim>\<open>DELETE FROM contents WHERE name=? AND parent_inode=?\<close>;
  \<^item> \<open>DELETE_telegram_messages inode\<close>: \<^verbatim>\<open>DELETE FROM telegram_messages WHERE inode=?\<close>;
  \<^item> \<open>UPDATE_contents_name name_new parent_new name_old parent_old\<close>;
  \<^item> \<open>UPDATE_contents_inode inode name parent_inode\<close>;
  \<^item> \<open>UPDATE_inodes col v id\<close>: \<^verbatim>\<open>UPDATE inodes SET col=? WHERE id=?\<close>.
\<close>

datatype sql =
    INSERT_inodes_id nat nat nat nat nat
  | INSERT_inodes nat nat nat nat "bytes option" nat
  | INSERT_contents bytes nat nat
  | INSERT_telegram_messages nat nat
  | DELETE_inodes nat
  | DELETE_contents bytes nat
  | DELETE_telegram_messages nat
  | UPDATE_contents_name bytes nat bytes nat
  | UPDATE_contents_inode nat bytes nat
  | UPDATE_inodes inode_col nat nat

definition max_list :: "nat list \<Rightarrow> nat" where
  "max_list xs = fold max xs 0"

definition set_inode_col :: "inode_col \<Rightarrow> nat \<Rightarrow> inode_row \<Rightarrow> inode_row" where
  "set_inode_col col v r =
     (case col of
        Col_size \<Rightarrow> r\<lparr>i_size := v\<rparr>
      | Col_mode \<Rightarrow> r\<lparr>i_mode := v\<rparr>
      | Col_uid \<Rightarrow> r\<lparr>i_uid := v\<rparr>
      | Col_gid \<Rightarrow> r\<lparr>i_gid := v\<rparr>
      | Col_atime_ns \<Rightarrow> r\<lparr>i_atime_ns := v\<rparr>
      | Col_mtime_ns \<Rightarrow> r\<lparr>i_mtime_ns := v\<rparr>
      | Col_ctime_ns \<Rightarrow> r\<lparr>i_ctime_ns := v\<rparr>)"

definition contents_key :: "contents_row \<Rightarrow> bytes \<times> nat" where
  "contents_key r = (c_name r, c_parent_inode r)"

text \<open>
  What one statement does to the tables. The result is the new database and the row id
  of an inserted row (\<^verbatim>\<open>lastrowid\<close>). The constraints of the schema that the engine
  enforces are the primary keys of \<^verbatim>\<open>inodes\<close> and \<^verbatim>\<open>telegram_messages\<close> and
  \<^verbatim>\<open>UNIQUE (name, parent_inode)\<close>; a statement that would break one raises
  \<open>IntegrityError\<close> and changes nothing. Foreign keys are not enforced (SQLite's default).
  An \<^verbatim>\<open>INTEGER PRIMARY KEY\<close> without a value is one more than the largest in use.
\<close>

fun apply_sql :: "sql \<Rightarrow> database \<Rightarrow> exn + (database \<times> nat option)" where
  "apply_sql (INSERT_inodes_id ino md u g now) d =
     (if ino \<in> set (map i_id (inodes d)) then Inl IntegrityError
      else Inr (d\<lparr>inodes := inodes d @
             [\<lparr>i_id = ino, i_uid = u, i_gid = g, i_mode = md, i_mtime_ns = now,
               i_atime_ns = now, i_ctime_ns = now, i_target = None, i_size = 0,
               i_rdev = 0\<rparr>]\<rparr>, Some ino))"
| "apply_sql (INSERT_inodes u g md now tgt rd) d =
     (let ino = Suc (max_list (map i_id (inodes d)))
      in Inr (d\<lparr>inodes := inodes d @
             [\<lparr>i_id = ino, i_uid = u, i_gid = g, i_mode = md, i_mtime_ns = now,
               i_atime_ns = now, i_ctime_ns = now, i_target = tgt, i_size = 0,
               i_rdev = rd\<rparr>]\<rparr>, Some ino))"
| "apply_sql (INSERT_contents nm ino par) d =
     (if (nm, par) \<in> set (map contents_key (contents d)) then Inl IntegrityError
      else (let rid = Suc (max (contents_seq d) (max_list (map c_rowid (contents d))))
            in Inr (d\<lparr>contents := contents d @
                   [\<lparr>c_rowid = rid, c_name = nm, c_inode = ino, c_parent_inode = par\<rparr>],
                 contents_seq := rid\<rparr>, Some rid)))"
| "apply_sql (INSERT_telegram_messages mid ino) d =
     (if mid \<in> set (map m_id (telegram_messages d)) then Inl IntegrityError
      else Inr (d\<lparr>telegram_messages := telegram_messages d @
             [\<lparr>m_id = mid, m_inode = ino\<rparr>]\<rparr>, Some mid))"
| "apply_sql (DELETE_inodes ino) d =
     Inr (d\<lparr>inodes := filter (\<lambda>r. i_id r \<noteq> ino) (inodes d)\<rparr>, None)"
| "apply_sql (DELETE_contents nm par) d =
     Inr (d\<lparr>contents := filter (\<lambda>r. contents_key r \<noteq> (nm, par)) (contents d)\<rparr>, None)"
| "apply_sql (DELETE_telegram_messages ino) d =
     Inr (d\<lparr>telegram_messages := filter (\<lambda>r. m_inode r \<noteq> ino) (telegram_messages d)\<rparr>,
          None)"
| "apply_sql (UPDATE_contents_name nm_new par_new nm_old par_old) d =
     (let rows = map (\<lambda>r. if contents_key r = (nm_old, par_old)
                            then r\<lparr>c_name := nm_new, c_parent_inode := par_new\<rparr> else r)
                     (contents d)
      in if rows = contents d then Inr (d, None)
         else if distinct (map contents_key rows) then Inr (d\<lparr>contents := rows\<rparr>, None)
         else Inl IntegrityError)"
| "apply_sql (UPDATE_contents_inode ino nm par) d =
     Inr (d\<lparr>contents := map (\<lambda>r. if contents_key r = (nm, par) then r\<lparr>c_inode := ino\<rparr> else r)
                              (contents d)\<rparr>, None)"
| "apply_sql (UPDATE_inodes col v ino) d =
     Inr (d\<lparr>inodes := map (\<lambda>r. if i_id r = ino then set_inode_col col v r else r)
                            (inodes d)\<rparr>, None)"


section \<open>The process state and its effects\<close>

text \<open>
  A message of the remote channel, as \<^verbatim>\<open>send_file\<close> returns it: its id, the name
  of the uploaded object and its bytes.
\<close>

record message =
  msg_id :: nat
  msg_file_name :: bytes
  msg_media :: bytes

text \<open>
  \<^verbatim>\<open>Fernet(key)\<close> of the \<^verbatim>\<open>cryptography\<close> library is taken as a parameter: a pair
  of functions. \<open>encrypt\<close> gives \<open>None\<close> where the constructor rejects the key;
  \<open>decrypt\<close> gives \<open>None\<close> where the library raises (a rejected key, or a token that
  fails authentication).
\<close>

record fernet =
  encrypt :: "bytes \<Rightarrow> bytes option"
  decrypt :: "bytes \<Rightarrow> bytes option"

text \<open>
  Every statement that changes the database, every commit and every call that changes
  the remote channel is appended to \<open>effects\<close>, in program order.
\<close>

datatype event =
    Execute sql
  | Commit
  | Send_file message
  | Delete_messages "nat list"

text \<open>
  The state of the two objects, \<^verbatim>\<open>Operations\<close> and \<^verbatim>\<open>TelegramFileClient\<close>, in one
  record:
  \<^item> \<open>db\<close>, \<open>lastrowid\<close>: the connection and its cursor;
  \<^item> \<open>inode_open_count\<close>, \<open>write_buffer\<close>: the fields of \<^verbatim>\<open>Operations\<close>;
  \<^item> \<open>write_buffer_cached\<close>: \<open>Some fh\<close> when \<^verbatim>\<open>self.write_buffer\<close> is the very
    \<^verbatim>\<open>bytearray\<close> object that the cache holds under \<open>fh\<close> (the buffer is seeded with
    the object \<^verbatim>\<open>get_telegram_data\<close> returns, and \<^verbatim>\<open>+=\<close> changes it in place);
  \<^item> \<open>channel\<close>, \<open>next_msg_id\<close>: the remote channel, whose ids grow by one per message;
  \<^item> \<open>encryption_key\<close>, \<open>cached_files\<close>, \<open>cache_maxsize\<close>, \<open>fname_to_msgs\<close>: the fields
    of \<^verbatim>\<open>TelegramFileClient\<close>. The cache is an \<^verbatim>\<open>LRUCache\<close> of \<^verbatim>\<open>cachetools\<close>:
    its entries \<open>(key, value, size recorded when stored)\<close>, least recently used first.
\<close>

record fs =
  db :: database
  lastrowid :: nat
  inode_open_count :: "nat \<Rightarrow> int option"
  write_buffer :: bytes
  write_buffer_cached :: "nat option"
  channel :: "message list"
  next_msg_id :: nat
  encryption_key :: "fernet option"
  cache_maxsize :: nat
  cached_files :: "(nat \<times> bytes \<times> nat) list"
  fname_to_msgs :: "bytes \<Rightarrow> nat list option"
  effects :: "event list"

text \<open>
  A method is a function from the state to a result and the new state. An exception is
  the result \<open>Inl e\<close>; the changes made before it was raised stay.
\<close>

type_synonym 'a prog = "fs \<Rightarrow> (exn + 'a) \<times> fs"

definition returnM :: "'a \<Rightarrow> 'a prog" where
  "returnM x = (\<lambda>s. (Inr x, s))"

definition raiseM :: "exn \<Rightarrow> 'a prog" where
  "raiseM e = (\<lambda>s. (Inl e, s))"

definition bindM :: "'a prog \<Rightarrow> ('a \<Rightarrow> 'b prog) \<Rightarrow> 'b prog" where
  "bindM m f = (\<lambda>s. case m s of (Inl e, s') \<Rightarrow> (Inl e, s') | (Inr x, s') \<Rightarrow> f x s')"

definition thenM :: "'a prog \<Rightarrow> 'b prog \<Rightarrow> 'b prog" where
  "thenM m n = bindM m (\<lambda>_. n)"

definition try_except :: "'a prog \<Rightarrow> (exn \<Rightarrow> 'a prog) \<Rightarrow> 'a prog" where
  "try_except m h = (\<lambda>s. case m s of (Inl e, s') \<Rightarrow> h e s' | (Inr x, s') \<Rightarrow> (Inr x, s'))"

definition gets :: "(fs \<Rightarrow> 'a) \<Rightarrow> 'a prog" where
  "gets f = (\<lambda>s. (Inr (f s), s))"

definition modify :: "(fs \<Rightarrow> fs) \<Rightarrow> unit prog" where
  "modify f = (\<lambda>s. (Inr (), f s))"

definition whenM :: "bool \<Rightarrow> unit prog \<Rightarrow> unit prog" where
  "whenM b m = (if b then m else returnM ())"

fun for_each :: "'x list \<Rightarrow> ('x \<Rightarrow> unit prog) \<Rightarrow> unit prog" where
  "for_each [] f = returnM ()"
| "for_each (x # xs) f = thenM (f x) (for_each xs f)"

subsection \<open>Database access\<close>

text \<open>
  \<^verbatim>\<open>self.cursor.execute\<close> and \<^verbatim>\<open>self.db.execute\<close>: only the first leaves the row id
  of an insertion in \<^verbatim>\<open>self.cursor.lastrowid\<close>.
\<close>

definition cursor_execute :: "sql \<Rightarrow> unit prog" where
  "cursor_execute q = (\<lambda>s.
     case apply_sql q (db s) of
       Inl e \<Rightarrow> (Inl e, s)
     | Inr (d, rid) \<Rightarrow>
         (Inr (), s\<lparr>db := d,
                    lastrowid := (case rid of None \<Rightarrow> lastrowid s | Some r \<Rightarrow> r),
                    effects := effects s @ [Execute q]\<rparr>))"

definition db_execute :: "sql \<Rightarrow> unit prog" where
  "db_execute q = (\<lambda>s.
     case apply_sql q (db s) of
       Inl e \<Rightarrow> (Inl e, s)
     | Inr (d, rid) \<Rightarrow> (Inr (), s\<lparr>db := d, effects := effects s @ [Execute q]\<rparr>))"

definition commit :: "unit prog" where
  "commit = modify (\<lambda>s. s\<lparr>effects := effects s @ [Commit]\<rparr>)"

text \<open>\<^verbatim>\<open>get_row\<close> and \<^verbatim>\<open>get_rows\<close>; the query is a function of the database.\<close>

definition get_row :: "(database \<Rightarrow> 'r list) \<Rightarrow> 'r prog" where
  "get_row q = (\<lambda>s.
     case q (db s) of
       [] \<Rightarrow> (Inl NoSuchRowError, s)
     | [row] \<Rightarrow> (Inr row, s)
     | _ \<Rightarrow> (Inl NoUniqueValueError, s))"

definition get_rows :: "(database \<Rightarrow> 'r list) \<Rightarrow> 'r list prog" where
  "get_rows q = (\<lambda>s.
     case q (db s) of
       [] \<Rightarrow> (Inl NoSuchRowError, s)
     | rows \<Rightarrow> (Inr rows, s))"

text \<open>
  The queries. A \<^verbatim>\<open>SELECT\<close> without \<^verbatim>\<open>ORDER BY\<close> scans \<^verbatim>\<open>telegram_messages\<close> in
  the order of its integer primary key.
\<close>

definition select_inodes :: "nat \<Rightarrow> database \<Rightarrow> inode_row list" where
  "select_inodes ino d = filter (\<lambda>r. i_id r = ino) (inodes d)"

definition select_contents_inode :: "nat \<Rightarrow> database \<Rightarrow> contents_row list" where
  "select_contents_inode ino d = filter (\<lambda>r. c_inode r = ino) (contents d)"

definition select_contents_name :: "bytes \<Rightarrow> nat \<Rightarrow> database \<Rightarrow> contents_row list" where
  "select_contents_name nm par d = filter (\<lambda>r. contents_key r = (nm, par)) (contents d)"

definition count_contents_inode :: "nat \<Rightarrow> database \<Rightarrow> nat list" where
  "count_contents_inode ino d = [length (filter (\<lambda>r. c_inode r = ino) (contents d))]"

definition count_contents_parent :: "nat \<Rightarrow> database \<Rightarrow> nat list" where
  "count_contents_parent ino d = [length (filter (\<lambda>r. c_parent_inode r = ino) (contents d))]"

definition select_messages :: "nat \<Rightarrow> database \<Rightarrow> message_row list" where
  "select_messages fh d = sort_key m_id (filter (\<lambda>r. m_inode r = fh) (telegram_messages d))"

section \<open>The remote chunk client (TelegramFUSE.py)\<close>

definition FILE_MAX_SIZE_BYTES :: nat where
  "FILE_MAX_SIZE_BYTES = 2000000000"

definition CACHE_MAXSIZE :: nat where
  "CACHE_MAXSIZE = 5000000000"

subsection \<open>The cache\<close>

definition currsize :: "(nat \<times> bytes \<times> nat) list \<Rightarrow> nat" where
  "currsize items = sum_list (map (\<lambda>e. snd (snd e)) items)"

text \<open>Reading \<^verbatim>\<open>cache[key]\<close> makes \<open>key\<close> the most recently used.\<close>

definition cache_touch :: "nat \<Rightarrow> (nat \<times> bytes \<times> nat) list \<Rightarrow> (nat \<times> bytes \<times> nat) list" where
  "cache_touch k items = filter (\<lambda>e. fst e \<noteq> k) items @ filter (\<lambda>e. fst e = k) items"

text \<open>\<^verbatim>\<open>while self.currsize + size > maxsize: self.popitem()\<close>\<close>

fun evict :: "nat \<Rightarrow> nat \<Rightarrow> (nat \<times> bytes \<times> nat) list \<Rightarrow> (nat \<times> bytes \<times> nat) list" where
  "evict sz mx [] = []"
| "evict sz mx (e # es) = (if currsize (e # es) + sz > mx then evict sz mx es else e # es)"

text \<open>\<^verbatim>\<open>cache[key] = value\<close>, with \<^verbatim>\<open>getsizeof = len\<close>.\<close>

definition cache_setitem ::
  "nat \<Rightarrow> bytes \<Rightarrow> nat \<Rightarrow> (nat \<times> bytes \<times> nat) list \<Rightarrow> exn + (nat \<times> bytes \<times> nat) list" where
  "cache_setitem k v mx items =
     (let sz = length v in
      if sz > mx then Inl ValueError
      else
        (let items1 =
               (case map_of items k of
                  None \<Rightarrow> evict sz mx items
                | Some (old, oldsz) \<Rightarrow> if oldsz < sz then evict sz mx items else items)
         in Inr (filter (\<lambda>e. fst e \<noteq> k) items1 @ [(k, v, sz)])))"

text \<open>
  The cache operations on the state. Whenever the entry that the write buffer shares
  is dropped or replaced, the buffer is no longer the cached object.
\<close>

definition unshare :: "fs \<Rightarrow> fs" where
  "unshare s =
     (case write_buffer_cached s of
        None \<Rightarrow> s
      | Some k \<Rightarrow> if k \<in> set (map fst (cached_files s)) then s
                  else s\<lparr>write_buffer_cached := None\<rparr>)"

definition cache_pop :: "nat \<Rightarrow> unit prog" where
  "cache_pop k =
     modify (\<lambda>s. unshare (s\<lparr>cached_files := filter (\<lambda>e. fst e \<noteq> k) (cached_files s)\<rparr>))"

definition cache_store :: "nat \<Rightarrow> bytes \<Rightarrow> unit prog" where
  "cache_store k v = (\<lambda>s.
     case cache_setitem k v (cache_maxsize s) (cached_files s) of
       Inl e \<Rightarrow> (Inl e, s)
     | Inr items \<Rightarrow>
         (Inr (), unshare (s\<lparr>cached_files := items,
                             write_buffer_cached :=
                               (if write_buffer_cached s = Some k then None
                                else write_buffer_cached s)\<rparr>)))"

text \<open>
  \<^verbatim>\<open>fh in self.cached_files and self.cached_files[fh] != bytearray(b'')\<close>: the
  value when both hold. The subscript is evaluated whenever the key is there.
\<close>

definition cache_nonempty :: "nat \<Rightarrow> bytes option prog" where
  "cache_nonempty fh =
     bindM (gets (\<lambda>s. map_of (cached_files s) fh)) (\<lambda>hit.
       case hit of
         None \<Rightarrow> returnM None
       | Some (v, sz) \<Rightarrow>
           thenM (modify (\<lambda>s. s\<lparr>cached_files := cache_touch fh (cached_files s)\<rparr>))
                 (returnM (if v = [] then None else Some v)))"

definition get_cached_file :: "nat \<Rightarrow> bytes option prog" where
  "get_cached_file fh = cache_nonempty fh"

subsection \<open>The channel\<close>

text \<open>
  \<^verbatim>\<open>client.upload_file\<close> followed by \<^verbatim>\<open>client.send_file\<close>: the channel gets one more
  message, with the next id.
\<close>

definition send_file :: "bytes \<Rightarrow> bytes \<Rightarrow> message prog" where
  "send_file fname c = (\<lambda>s.
     let m = \<lparr>msg_id = next_msg_id s, msg_file_name = fname, msg_media = c\<rparr>
     in (Inr m, s\<lparr>channel := channel s @ [m],
                  next_msg_id := Suc (next_msg_id s),
                  effects := effects s @ [Send_file m]\<rparr>))"

definition delete_messages :: "nat list \<Rightarrow> unit prog" where
  "delete_messages ids =
     modify (\<lambda>s. s\<lparr>channel := filter (\<lambda>m. msg_id m \<notin> set ids) (channel s),
                    effects := effects s @ [Delete_messages ids]\<rparr>)"

text \<open>\<^verbatim>\<open>get_messages\<close> gives \<^verbatim>\<open>None\<close> in the place of an id the channel does not have.\<close>

definition get_messages :: "nat list \<Rightarrow> message option list prog" where
  "get_messages ids = gets (\<lambda>s. map (\<lambda>i. find (\<lambda>m. msg_id m = i) (channel s)) ids)"

definition download_message :: "message option \<Rightarrow> bytes prog" where
  "download_message msg =
     (case msg of None \<Rightarrow> raiseM AttributeError | Some m \<Rightarrow> returnM (msg_media m))"

subsection \<open>Upload\<close>

text \<open>
  The chunks of \<^verbatim>\<open>upload_file\<close>. \<^verbatim>\<open>file_bytes[start:end]\<close> with
  \<open>start \<le> end\<close> is \<open>take (end - start) (drop start file_bytes)\<close>.
\<close>

definition make_chunks :: "nat \<Rightarrow> bytes \<Rightarrow> bytes list" where
  "make_chunks max_size file_bytes =
     (let file_len = length file_bytes in
      if file_len > max_size then
        (let num_chunks = (length file_bytes + max_size) div max_size
         in map (\<lambda>i. let start = i * max_size; end' = (i + 1) * max_size
                     in take (end' - start) (drop start file_bytes))
                [0 ..< num_chunks])
      else [file_bytes])"

text \<open>The decimal digits of \<open>i\<close> in \<^verbatim>\<open>f"{file_name}_part{i}.txt"\<close>.\<close>

fun str_of_nat :: "nat \<Rightarrow> bytes" where
  "str_of_nat n =
     (if n < 10 then [''0123456789'' ! n]
      else str_of_nat (n div 10) @ [''0123456789'' ! (n mod 10)])"

fun send_chunks :: "bytes \<Rightarrow> nat \<Rightarrow> bytes list \<Rightarrow> message list prog" where
  "send_chunks file_name i [] = returnM []"
| "send_chunks file_name i (c # cs) =
     bindM (send_file (file_name @ ''_part'' @ str_of_nat i @ ''.txt'') c) (\<lambda>result.
     bindM (send_chunks file_name (i + 1) cs) (\<lambda>results.
     returnM (result # results)))"

definition upload_file :: "bytes \<Rightarrow> nat \<Rightarrow> bytes \<Rightarrow> message list prog" where
  "upload_file bytesio fh file_name =
     thenM (bindM (gets (\<lambda>s. fh \<in> set (map fst (cached_files s)))) (\<lambda>cached.
              whenM cached (cache_pop fh)))
    (bindM (gets encryption_key) (\<lambda>key.
     bindM (case key of
              None \<Rightarrow> returnM bytesio
            | Some f \<Rightarrow> (case encrypt f bytesio of
                           None \<Rightarrow> raiseM ValueError
                         | Some token \<Rightarrow> returnM token)) (\<lambda>file_bytes.
     bindM (send_chunks file_name 0 (make_chunks FILE_MAX_SIZE_BYTES file_bytes))
       (\<lambda>upload_results.
     thenM (modify (\<lambda>s. s\<lparr>fname_to_msgs :=
                            (fname_to_msgs s)(file_name \<mapsto> map msg_id upload_results)\<rparr>))
           (returnM upload_results)))))"

subsection \<open>Download\<close>

fun download_all :: "message option list \<Rightarrow> bytes prog" where
  "download_all [] = returnM []"
| "download_all (m # ms) =
     bindM (download_message m) (\<lambda>b.
     bindM (download_all ms) (\<lambda>bs. returnM (b @ bs)))"

definition download_file :: "nat \<Rightarrow> nat list \<Rightarrow> bytes prog" where
  "download_file fh msgIds =
     bindM (cache_nonempty fh) (\<lambda>hit.
       case hit of
         Some v \<Rightarrow> returnM v
       | None \<Rightarrow>
           bindM (get_messages msgIds) (\<lambda>msgs.
           bindM (download_all msgs) (\<lambda>readBytes0.
           bindM (gets encryption_key) (\<lambda>key.
           bindM (case key of
                    None \<Rightarrow> returnM readBytes0
                  | Some f \<Rightarrow> (case decrypt f readBytes0 of
                                 None \<Rightarrow> raiseM InvalidToken
                               | Some plain \<Rightarrow> returnM plain)) (\<lambda>barr.
           thenM (cache_store fh barr) (returnM barr))))))"


section \<open>The filesystem operations (fuse\_impl.py)\<close>

record entry_attributes =
  st_ino :: nat
  generation :: nat
  entry_timeout :: nat
  attr_timeout :: nat
  st_mode :: nat
  st_nlink :: nat
  st_uid :: nat
  st_gid :: nat
  st_rdev :: nat
  st_size :: nat
  st_blksize :: nat
  st_blocks :: nat
  st_atime_ns :: nat
  st_mtime_ns :: nat
  st_ctime_ns :: nat

record request_context =
  ctx_uid :: nat
  ctx_gid :: nat

record setattr_fields =
  update_size :: bool
  update_mode :: bool
  update_uid :: bool
  update_gid :: bool
  update_atime :: bool
  update_mtime :: bool
  update_ctime :: bool

record statvfs_data =
  f_bsize :: nat
  f_frsize :: nat
  f_blocks :: nat
  f_bfree :: nat
  f_bavail :: nat
  f_files :: nat
  f_ffree :: nat
  f_favail :: nat

definition ROOT_INODE :: nat where
  "ROOT_INODE = 1"

text \<open>
  \<^verbatim>\<open>stat.S_ISDIR(mode)\<close> is \<^verbatim>\<open>(mode & 0o170000) == 0o040000\<close>: the four type bits
  above the twelve permission bits.
\<close>

definition S_ISDIR :: "nat \<Rightarrow> bool" where
  "S_ISDIR md = ((md div 4096) mod 16 = 4)"

text \<open>
  \<^verbatim>\<open>S_IFDIR | 0o755\<close>, the mode of the root, and \<^verbatim>\<open>S_IFLNK | 0o777\<close>, the mode
  \<^verbatim>\<open>symlink\<close> passes.
\<close>

definition ROOT_MODE :: nat where
  "ROOT_MODE = 16877"

definition SYMLINK_MODE :: nat where
  "SYMLINK_MODE = 41471"

text \<open>
  The kernel channel passes names as \<^verbatim>\<open>bytes\<close>, and \<^verbatim>\<open>lookup\<close> compares them with
  the \<^verbatim>\<open>str\<close> literals \<^verbatim>\<open>'.'\<close> and \<^verbatim>\<open>'..'\<close>. In Python 3 a \<^verbatim>\<open>bytes\<close> value is never
  equal to a \<^verbatim>\<open>str\<close> value.
\<close>

definition bytes_eq_str :: "bytes \<Rightarrow> string \<Rightarrow> bool" where
  "bytes_eq_str b s = False"

text \<open>
  \<^verbatim>\<open>name.decode()\<close>: strict UTF-8. The decoded text is represented by the bytes it
  was decoded from; the check is that of the Unicode standard (no overlong forms, no
  surrogates, nothing above U+10FFFF).
\<close>

definition cont_byte :: "nat \<Rightarrow> bool" where
  "cont_byte b = (128 \<le> b \<and> b \<le> 191)"

fun utf8_valid :: "nat list \<Rightarrow> bool" where
  "utf8_valid [] = True"
| "utf8_valid (a # bs) =
     (if a < 128 then utf8_valid bs
      else if 194 \<le> a \<and> a \<le> 223 then
        (case bs of b # r \<Rightarrow> cont_byte b \<and> utf8_valid r | _ \<Rightarrow> False)
      else if a = 224 then
        (case bs of b # c # r \<Rightarrow> 160 \<le> b \<and> b \<le> 191 \<and> cont_byte c \<and> utf8_valid r
                  | _ \<Rightarrow> False)
      else if a = 237 then
        (case bs of b # c # r \<Rightarrow> 128 \<le> b \<and> b \<le> 159 \<and> cont_byte c \<and> utf8_valid r
                  | _ \<Rightarrow> False)
      else if 225 \<le> a \<and> a \<le> 239 then
        (case bs of b # c # r \<Rightarrow> cont_byte b \<and> cont_byte c \<and> utf8_valid r | _ \<Rightarrow> False)
      else if a = 240 then
        (case bs of b # c # d # r \<Rightarrow>
                      144 \<le> b \<and> b \<le> 191 \<and> cont_byte c \<and> cont_byte d \<and> utf8_valid r
                  | _ \<Rightarrow> False)
      else if 241 \<le> a \<and> a \<le> 243 then
        (case bs of b # c # d # r \<Rightarrow>
                      cont_byte b \<and> cont_byte c \<and> cont_byte d \<and> utf8_valid r
                  | _ \<Rightarrow> False)
      else if a = 244 then
        (case bs of b # c # d # r \<Rightarrow>
                      128 \<le> b \<and> b \<le> 143 \<and> cont_byte c \<and> cont_byte d \<and> utf8_valid r
                  | _ \<Rightarrow> False)
      else False)"

definition decode :: "bytes \<Rightarrow> bytes prog" where
  "decode nm =
     (if utf8_valid (map of_char nm) then returnM nm else raiseM UnicodeDecodeError)"

text \<open>\<^verbatim>\<open>except NoSuchRowError: raise FUSEError(errno.ENOENT)\<close>\<close>

definition no_row_is_ENOENT :: "'a prog \<Rightarrow> 'a prog" where
  "no_row_is_ENOENT m =
     try_except m (\<lambda>e. if e = NoSuchRowError then raiseM (FUSEError ENOENT) else raiseM e)"

definition init_tables :: "nat \<Rightarrow> nat \<Rightarrow> nat \<Rightarrow> unit prog" where
  "init_tables uid gid now_ns =
     thenM (cursor_execute (INSERT_inodes_id ROOT_INODE ROOT_MODE uid gid now_ns))
    (thenM (cursor_execute (INSERT_contents ''..'' ROOT_INODE ROOT_INODE))
           commit)"

definition getattr :: "nat \<Rightarrow> entry_attributes prog" where
  "getattr ino =
     bindM (no_row_is_ENOENT (get_row (select_inodes ino))) (\<lambda>row.
     bindM (get_row (count_contents_inode ino)) (\<lambda>nlink.
     returnM \<lparr>st_ino = ino, generation = 0, entry_timeout = 300, attr_timeout = 300,
              st_mode = i_mode row, st_nlink = nlink, st_uid = i_uid row,
              st_gid = i_gid row, st_rdev = i_rdev row, st_size = i_size row,
              st_blksize = 512, st_blocks = 1, st_atime_ns = i_atime_ns row,
              st_mtime_ns = i_mtime_ns row, st_ctime_ns = i_ctime_ns row\<rparr>))"

definition lookup :: "nat \<Rightarrow> bytes \<Rightarrow> entry_attributes prog" where
  "lookup inode_p nm =
     bindM (if bytes_eq_str nm ''.'' then returnM inode_p
            else if bytes_eq_str nm ''..'' then
              bindM (get_row (select_contents_inode inode_p)) (\<lambda>r.
                returnM (c_parent_inode r))
            else
              no_row_is_ENOENT
                (bindM (get_row (select_contents_name nm inode_p)) (\<lambda>r.
                   returnM (c_inode r))))
       (\<lambda>ino. getattr ino)"

definition readlink :: "nat \<Rightarrow> bytes option prog" where
  "readlink ino = bindM (get_row (select_inodes ino)) (\<lambda>row. returnM (i_target row))"

definition opendir :: "nat \<Rightarrow> nat prog" where
  "opendir ino = returnM ino"

fun readdir_reply :: "contents_row list \<Rightarrow> (bytes \<times> entry_attributes \<times> nat) list prog" where
  "readdir_reply [] = returnM []"
| "readdir_reply (row # rows) =
     bindM (getattr (c_inode row)) (\<lambda>attr.
     bindM (readdir_reply rows) (\<lambda>rest.
     returnM ((c_name row, attr, c_rowid row) # rest)))"

definition readdir :: "nat \<Rightarrow> int \<Rightarrow> (bytes \<times> entry_attributes \<times> nat) list prog" where
  "readdir ino off0 =
     (let off = (if off0 = 0 then - 1 else off0) in
      bindM (gets (\<lambda>s. sort_key c_rowid
                          (filter (\<lambda>r. c_parent_inode r = ino \<and> off < int (c_rowid r))
                                  (contents (db s))))) readdir_reply)"

definition delete_msgs_for_inode :: "nat \<Rightarrow> unit prog" where
  "delete_msgs_for_inode fh =
     bindM (gets (\<lambda>s. select_messages fh (db s))) (\<lambda>rows.
     delete_messages (map m_id rows))"

text \<open>\<^verbatim>\<open>_remove\<close>\<close>

definition remove' :: "nat \<Rightarrow> bytes \<Rightarrow> entry_attributes \<Rightarrow> unit prog" where
  "remove' inode_p nm entry =
     bindM (get_row (count_contents_parent (st_ino entry))) (\<lambda>children.
     if children > 0 then raiseM (FUSEError ENOTEMPTY)
     else
       bindM (gets inode_open_count) (\<lambda>open_count.
       thenM (whenM (st_nlink entry = 1 \<and> open_count (st_ino entry) = None)
                (thenM (cursor_execute (DELETE_inodes (st_ino entry)))
                (thenM (delete_msgs_for_inode (st_ino entry))
                (thenM (cursor_execute (DELETE_contents nm inode_p))
                       (cursor_execute (DELETE_telegram_messages (st_ino entry)))))))
      (thenM (whenM (st_nlink entry > 1 \<and> open_count (st_ino entry) = None)
                (cursor_execute (DELETE_contents nm inode_p)))
             commit)))"

definition unlink :: "nat \<Rightarrow> bytes \<Rightarrow> unit prog" where
  "unlink inode_p nm =
     bindM (lookup inode_p nm) (\<lambda>entry.
     if S_ISDIR (st_mode entry) then raiseM (FUSEError EISDIR)
     else remove' inode_p nm entry)"

definition rmdir :: "nat \<Rightarrow> bytes \<Rightarrow> unit prog" where
  "rmdir inode_p nm =
     bindM (lookup inode_p nm) (\<lambda>entry.
     if \<not> S_ISDIR (st_mode entry) then raiseM (FUSEError ENOTDIR)
     else remove' inode_p nm entry)"

text \<open>\<^verbatim>\<open>_create\<close>; \<open>now_ns\<close> is the clock reading \<^verbatim>\<open>int(time() * 1e9)\<close>.\<close>

definition create' ::
  "nat \<Rightarrow> bytes \<Rightarrow> nat \<Rightarrow> request_context \<Rightarrow> nat \<Rightarrow> nat \<Rightarrow> bytes option
     \<Rightarrow> entry_attributes prog" where
  "create' inode_p nm md ctx now_ns rdev target =
     bindM (getattr inode_p) (\<lambda>parent.
     if st_nlink parent = 0 then raiseM (FUSEError EINVAL)
     else
       thenM (cursor_execute (INSERT_inodes (ctx_uid ctx) (ctx_gid ctx) md now_ns target rdev))
      (bindM (gets lastrowid) (\<lambda>ino.
       thenM (db_execute (INSERT_contents nm ino inode_p))
      (thenM commit
             (getattr ino)))))"

definition symlink :: "nat \<Rightarrow> bytes \<Rightarrow> bytes \<Rightarrow> request_context \<Rightarrow> nat \<Rightarrow> entry_attributes prog" where
  "symlink inode_p nm target ctx now_ns =
     create' inode_p nm SYMLINK_MODE ctx now_ns 0 (Some target)"

definition mknod ::
  "nat \<Rightarrow> bytes \<Rightarrow> nat \<Rightarrow> nat \<Rightarrow> request_context \<Rightarrow> nat \<Rightarrow> entry_attributes prog" where
  "mknod inode_p nm md rdev ctx now_ns = create' inode_p nm md ctx now_ns rdev None"

definition mkdir :: "nat \<Rightarrow> bytes \<Rightarrow> nat \<Rightarrow> request_context \<Rightarrow> nat \<Rightarrow> entry_attributes prog" where
  "mkdir inode_p nm md ctx now_ns = create' inode_p nm md ctx now_ns 0 None"

definition incr_open_count :: "nat \<Rightarrow> unit prog" where
  "incr_open_count ino =
     modify (\<lambda>s. s\<lparr>inode_open_count :=
                     (inode_open_count s)
                       (ino \<mapsto> (case inode_open_count s ino of None \<Rightarrow> 0 | Some c \<Rightarrow> c) + 1)\<rparr>)"

definition create ::
  "nat \<Rightarrow> bytes \<Rightarrow> nat \<Rightarrow> nat \<Rightarrow> request_context \<Rightarrow> nat
     \<Rightarrow> (nat \<times> entry_attributes) prog" where
  "create inode_parent nm md flags ctx now_ns =
     bindM (create' inode_parent nm md ctx now_ns 0 None) (\<lambda>entry.
     thenM (incr_open_count (st_ino entry))
           (returnM (st_ino entry, entry)))"

definition open_op :: "nat \<Rightarrow> nat \<Rightarrow> nat prog" where
  "open_op ino flags = thenM (incr_open_count ino) (returnM ino)"

definition access :: "nat \<Rightarrow> nat \<Rightarrow> bool prog" where
  "access ino md = returnM True"

text \<open>\<^verbatim>\<open>_replace\<close>\<close>

definition replace' ::
  "nat \<Rightarrow> bytes \<Rightarrow> nat \<Rightarrow> bytes \<Rightarrow> entry_attributes \<Rightarrow> entry_attributes \<Rightarrow> unit prog" where
  "replace' inode_p_old name_old inode_p_new name_new entry_old entry_new =
     bindM (get_row (count_contents_parent (st_ino entry_new))) (\<lambda>children.
     if children > 0 then raiseM (FUSEError ENOTEMPTY)
     else
       thenM (cursor_execute (UPDATE_contents_inode (st_ino entry_old) name_new inode_p_new))
      (thenM (db_execute (DELETE_contents name_old inode_p_old))
      (bindM (gets inode_open_count) (\<lambda>open_count.
       thenM (whenM (st_nlink entry_new = 1 \<and> open_count (st_ino entry_new) = None)
                (thenM (cursor_execute (DELETE_inodes (st_ino entry_new)))
                       (delete_msgs_for_inode (st_ino entry_new))))
             commit))))"

definition rename :: "nat \<Rightarrow> bytes \<Rightarrow> nat \<Rightarrow> bytes \<Rightarrow> nat \<Rightarrow> unit prog" where
  "rename inode_p_old name_old inode_p_new name_new flags =
     (if flags \<noteq> 0 then raiseM (FUSEError EINVAL)
      else
        bindM (lookup inode_p_old name_old) (\<lambda>entry_old.
        bindM (try_except
                 (bindM (lookup inode_p_new name_new) (\<lambda>e. returnM (Some e)))
                 (\<lambda>exc. if exc = FUSEError ENOENT then returnM None else raiseM exc))
          (\<lambda>target.
            case target of
              Some entry_new \<Rightarrow>
                replace' inode_p_old name_old inode_p_new name_new entry_old entry_new
            | None \<Rightarrow>
                thenM (cursor_execute
                         (UPDATE_contents_name name_new inode_p_new name_old inode_p_old))
                      commit)))"

definition link :: "nat \<Rightarrow> nat \<Rightarrow> bytes \<Rightarrow> entry_attributes prog" where
  "link ino new_inode_p new_name =
     bindM (getattr new_inode_p) (\<lambda>entry_p.
     if st_nlink entry_p = 0 then raiseM (FUSEError EINVAL)
     else
       thenM (cursor_execute (INSERT_contents new_name ino new_inode_p))
      (thenM commit
             (getattr ino)))"

definition statfs :: "statvfs_data prog" where
  "statfs =
     bindM (gets (\<lambda>s. inodes (db s))) (\<lambda>rows.
     if rows = [] then raiseM TypeError
     else
       (let sz = sum_list (map i_size rows); n = length rows
        in returnM \<lparr>f_bsize = 512, f_frsize = 512, f_blocks = sz div 512,
                    f_bfree = max (sz div 512) 1024, f_bavail = max (sz div 512) 1024,
                    f_files = n, f_ffree = max n 100, f_favail = max n 100\<rparr>))"

subsection \<open>Reading and writing\<close>

text \<open>
  \<^verbatim>\<open>get_telegram_data\<close>. Beside the bytes, the result says whether the returned
  \<^verbatim>\<open>bytearray\<close> is the object the cache holds under \<open>fh\<close> (a cache hit, or a download,
  which stores what it returns) or a new empty one (the exception handler).
\<close>

definition get_telegram_data :: "nat \<Rightarrow> (bytes \<times> bool) prog" where
  "get_telegram_data fh =
     bindM (get_cached_file fh) (\<lambda>filebuf.
       case filebuf of
         Some v \<Rightarrow> returnM (v, True)
       | None \<Rightarrow>
           try_except
             (bindM (get_rows (select_messages fh)) (\<lambda>msgIds.
              bindM (download_file fh (map m_id msgIds)) (\<lambda>v.
              returnM (v, True))))
             (\<lambda>e. returnM ([], False)))"

text \<open>
  \<^verbatim>\<open>read\<close>. \<^verbatim>\<open>get_row\<close> returns a row or raises, so the test \<^verbatim>\<open>row is None\<close> of the
  source is never true. Offsets and lengths are not negative.
\<close>

definition read :: "nat \<Rightarrow> nat \<Rightarrow> nat \<Rightarrow> bytes prog" where
  "read fh off len =
     bindM (get_row (select_inodes fh)) (\<lambda>row.
     bindM (get_telegram_data fh) (\<lambda>telegram_data.
     returnM (take len (drop off (fst telegram_data)))))"

text \<open>\<^verbatim>\<open>self.write_buffer += buf\<close> extends the object in place, also where the cache holds it.\<close>

definition extend_write_buffer :: "bytes \<Rightarrow> unit prog" where
  "extend_write_buffer buf =
     modify (\<lambda>s. s\<lparr>write_buffer := write_buffer s @ buf,
                    cached_files :=
                      (case write_buffer_cached s of
                         None \<Rightarrow> cached_files s
                       | Some k \<Rightarrow> map (\<lambda>e. if fst e = k
                                              then (k, write_buffer s @ buf, snd (snd e))
                                              else e)
                                      (cached_files s))\<rparr>)"

text \<open>\<^verbatim>\<open>write\<close>; the test \<^verbatim>\<open>row != None\<close> is always true when \<^verbatim>\<open>get_row\<close> returns.\<close>

definition write_op :: "nat \<Rightarrow> nat \<Rightarrow> bytes \<Rightarrow> nat prog" where
  "write_op fh off buf =
     bindM (gets write_buffer) (\<lambda>buffered.
     bindM (if buffered = [] then
              bindM (get_row (select_inodes fh)) (\<lambda>row.
              bindM (get_telegram_data fh) (\<lambda>telegram_data.
              thenM (modify (\<lambda>s. s\<lparr>write_buffer := fst telegram_data,
                                     write_buffer_cached :=
                                       (if snd telegram_data then Some fh else None)\<rparr>))
                    (returnM (fst telegram_data))))
            else returnM buffered) (\<lambda>result_bytes.
     thenM (if off = length result_bytes then extend_write_buffer buf
            else modify (\<lambda>s. s\<lparr>write_buffer :=
                                   take off result_bytes @ buf
                                     @ drop (off + length buf) result_bytes,
                                 write_buffer_cached := None\<rparr>))
           (returnM (length buf))))"

definition close :: "nat \<Rightarrow> unit prog" where
  "close fh = returnM ()"

definition fsync :: "nat \<Rightarrow> unit prog" where
  "fsync fh = returnM ()"

definition release :: "nat \<Rightarrow> unit prog" where
  "release fh =
     thenM (modify (\<lambda>s. s\<lparr>inode_open_count :=
                            (inode_open_count s)
                              (fh \<mapsto> (case inode_open_count s fh of None \<Rightarrow> 0 | Some c \<Rightarrow> c) - 1)\<rparr>))
    (thenM (bindM (gets write_buffer) (\<lambda>data.
              whenM (length data > 0)
                (thenM (modify (\<lambda>s. s\<lparr>write_buffer := [], write_buffer_cached := None\<rparr>))
                (bindM (get_row (select_contents_inode fh)) (\<lambda>fname.
                 bindM (decode (c_name fname)) (\<lambda>filename.
                 bindM (upload_file data fh filename) (\<lambda>telegram_msgs.
                 thenM (delete_msgs_for_inode fh)
                (thenM (cursor_execute (DELETE_telegram_messages fh))
                (thenM (for_each telegram_msgs (\<lambda>msg.
                          cursor_execute (INSERT_telegram_messages (msg_id msg) fh)))
                (thenM (cursor_execute (UPDATE_inodes Col_size (length data) fh))
                       commit))))))))))
    (bindM (gets (\<lambda>s. inode_open_count s fh)) (\<lambda>c.
       whenM (c = Some 0)
         (thenM (modify (\<lambda>s. s\<lparr>inode_open_count := (inode_open_count s)(fh := None)\<rparr>))
         (bindM (getattr fh) (\<lambda>entry.
            whenM (st_nlink entry = 0)
              (thenM (cursor_execute (DELETE_inodes fh)) commit)))))))"

text \<open>
  \<^verbatim>\<open>setattr\<close>. The handle is \<^verbatim>\<open>None\<close> when the kernel names the file by its path;
  no cache entry and no message row has the key \<^verbatim>\<open>None\<close>, so \<^verbatim>\<open>get_telegram_data\<close>
  gives the empty bytes then. The padded or truncated \<open>data\<close> is computed and not used.
\<close>

definition setattr ::
  "nat \<Rightarrow> entry_attributes \<Rightarrow> setattr_fields \<Rightarrow> nat option \<Rightarrow> nat \<Rightarrow> entry_attributes prog" where
  "setattr ino attr flds fh now_ns =
     thenM (whenM (update_size flds)
              (bindM (case fh of None \<Rightarrow> returnM ([], False)
                               | Some h \<Rightarrow> get_telegram_data h) (\<lambda>telegram_data.
               let data = (if length (fst telegram_data) < st_size attr
                           then fst telegram_data
                                  @ replicate (st_size attr - length (fst telegram_data)) (CHR 0x00)
                           else take (st_size attr) (fst telegram_data))
               in cursor_execute (UPDATE_inodes Col_size (st_size attr) ino))))
    (thenM (whenM (update_mode flds) (cursor_execute (UPDATE_inodes Col_mode (st_mode attr) ino)))
    (thenM (whenM (update_uid flds) (cursor_execute (UPDATE_inodes Col_uid (st_uid attr) ino)))
    (thenM (whenM (update_gid flds) (cursor_execute (UPDATE_inodes Col_gid (st_gid attr) ino)))
    (thenM (whenM (update_atime flds)
              (cursor_execute (UPDATE_inodes Col_atime_ns (st_atime_ns attr) ino)))
    (thenM (whenM (update_mtime flds)
              (cursor_execute (UPDATE_inodes Col_mtime_ns (st_mtime_ns attr) ino)))
    (thenM (if update_ctime flds
            then cursor_execute (UPDATE_inodes Col_ctime_ns (st_ctime_ns attr) ino)
            else cursor_execute (UPDATE_inodes Col_ctime_ns now_ns ino))
    (thenM commit
           (getattr ino))))))))"


subsection \<open>Start-up\<close>

text \<open>
  The two constructors on a new database file: no tables yet, so \<^verbatim>\<open>init_tables\<close> runs.
  \<open>key\<close> is \<^verbatim>\<open>ENCRYPTION_KEY\<close>, \<open>uid\<close> and \<open>gid\<close> are those of the process.
\<close>

definition new_fs :: "fernet option \<Rightarrow> fs" where
  "new_fs key =
     \<lparr>db = \<lparr>inodes = [], contents = [], telegram_messages = [], contents_seq = 0\<rparr>,
      lastrowid = 0,
      inode_open_count = Map.empty,
      write_buffer = [],
      write_buffer_cached = None,
      channel = [],
      next_msg_id = 1,
      encryption_key = key,
      cache_maxsize = CACHE_MAXSIZE,
      cached_files = [],
      fname_to_msgs = Map.empty,
      effects = []\<rparr>"

definition mount :: "fernet option \<Rightarrow> nat \<Rightarrow> nat \<Rightarrow> nat \<Rightarrow> fs" where
  "mount key uid gid now_ns = snd (init_tables uid gid now_ns (new_fs key))"


section \<open>Example inputs\<close>

text \<open>The inputs at which the properties below are evaluated.\<close>

definition ctx0 :: request_context where
  "ctx0 = \<lparr>ctx_uid = 1000, ctx_gid = 1000\<rparr>"

text \<open>A mounted file system without an encryption key.\<close>

definition fs0 :: fs where
  "fs0 = mount None 1000 1000 1"

text \<open>The regular file \<^verbatim>\<open>/f\<close> (mode \<^verbatim>\<open>0o100644\<close>) created in it and still open.\<close>

definition fs_created :: fs where
  "fs_created = snd (create ROOT_INODE ''f'' 33188 0 ctx0 5 fs0)"

text \<open>
  A stand-in for the authenticated cipher: a token is the plain bytes behind a one-byte
  tag, and a token with another first byte is rejected.
\<close>

definition tag_fernet :: fernet where
  "tag_fernet =
     \<lparr>encrypt = (\<lambda>b. Some (CHR ''#'' # b)),
      decrypt = (\<lambda>t. case t of [] \<Rightarrow> None
                         | c # b \<Rightarrow> if c = CHR ''#'' then Some b else None)\<rparr>"

text \<open>\<^verbatim>\<open>/f\<close> after \<^verbatim>\<open>write(2, 0, b'hello')\<close> and \<^verbatim>\<open>release(2)\<close>: flushed and closed.\<close>

definition fs_hello :: fs where
  "fs_hello = snd (thenM (write_op 2 0 ''hello'') (release 2) fs_created)"

text \<open>A second file \<^verbatim>\<open>/g\<close> created beside the flushed \<^verbatim>\<open>/f\<close>.\<close>

definition fs_two :: fs where
  "fs_two = snd (create ROOT_INODE ''g'' 33188 0 ctx0 7 fs_hello)"

definition entry_f :: entry_attributes where
  "entry_f =
     \<lparr>st_ino = 2, generation = 0, entry_timeout = 300, attr_timeout = 300,
      st_mode = 33188, st_nlink = 1, st_uid = 1000, st_gid = 1000, st_rdev = 0,
      st_size = 5, st_blksize = 512, st_blocks = 1, st_atime_ns = 5, st_mtime_ns = 5,
      st_ctime_ns = 5\<rparr>"

definition entry_g :: entry_attributes where
  "entry_g =
     \<lparr>st_ino = 3, generation = 0, entry_timeout = 300, attr_timeout = 300,
      st_mode = 33188, st_nlink = 1, st_uid = 1000, st_gid = 1000, st_rdev = 0,
      st_size = 0, st_blksize = 512, st_blocks = 1, st_atime_ns = 7, st_mtime_ns = 7,
      st_ctime_ns = 7\<rparr>"

text \<open>\<^verbatim>\<open>/f\<close> with a second name \<^verbatim>\<open>/g\<close> (a hard link) and two unflushed bytes.\<close>

definition fs_linked :: fs where
  "fs_linked = snd (thenM (link 2 ROOT_INODE ''g'') (write_op 2 0 ''hi'') fs_created)"

text \<open>A file whose one-byte name \<^verbatim>\<open>b'\xff'\<close> is not UTF-8, created and written to.\<close>

definition fs_badname :: fs where
  "fs_badname =
     snd (bindM (create ROOT_INODE [CHR 0xFF] 33188 0 ctx0 5)
                (\<lambda>r. write_op (fst r) 0 ''a'') fs0)"

text \<open>
  With a key: \<^verbatim>\<open>/f\<close> written with \<^verbatim>\<open>b'secret'\<close> and released, and then the first
  byte of every stored payload changed on the remote side.
\<close>

definition fs_secret :: fs where
  "fs_secret =
     snd (thenM (create ROOT_INODE ''f'' 33188 0 ctx0 5)
         (thenM (write_op 2 0 ''secret'') (release 2))
           (mount (Some tag_fernet) 1000 1000 1))"

definition corrupt :: "message \<Rightarrow> message" where
  "corrupt m =
     m\<lparr>msg_media := (case msg_media m of [] \<Rightarrow> [] | b # bs \<Rightarrow> CHR ''!'' # bs)\<rparr>"

definition fs_tampered :: fs where
  "fs_tampered = fs_secret\<lparr>channel := map corrupt (channel fs_secret)\<rparr>"

text \<open>The arguments of a \<^verbatim>\<open>setattr\<close> that only sets the size.\<close>

definition attr_size :: "nat \<Rightarrow> entry_attributes" where
  "attr_size n =
     \<lparr>st_ino = 0, generation = 0, entry_timeout = 0, attr_timeout = 0, st_mode = 0,
      st_nlink = 0, st_uid = 0, st_gid = 0, st_rdev = 0, st_size = n, st_blksize = 0,
      st_blocks = 0, st_atime_ns = 0, st_mtime_ns = 0, st_ctime_ns = 0\<rparr>"

definition size_only :: setattr_fields where
  "size_only =
     \<lparr>update_size = True, update_mode = False, update_uid = False, update_gid = False,
      update_atime = False, update_mtime = False, update_ctime = False\<rparr>"

definition fs_truncated :: fs where
  "fs_truncated =
     snd (thenM (setattr 2 (attr_size 2) size_only (Some 2) 9)
                (setattr 2 (attr_size 2) size_only (Some 2) 9) fs_hello)"

section \<open>The root invariant\<close>

text \<open>
  The root inode row exists, and \<^verbatim>\<open>contents\<close> has a row named \<^verbatim>\<open>..\<close> whose inode
  and parent are both the root.
\<close>

definition root_dotdot :: "contents_row \<Rightarrow> bool" where
  "root_dotdot r =
     (c_name r = ''..'' \<and> c_inode r = ROOT_INODE \<and> c_parent_inode r = ROOT_INODE)"

definition root_invariant :: "fs \<Rightarrow> bool" where
  "root_invariant s =
     (ROOT_INODE \<in> set (map i_id (inodes (db s)))
      \<and> list_ex root_dotdot (contents (db s)))"

section \<open>Frame conditions\<close>

text \<open>\<open>cache_only s s'\<close>: the state \<open>s'\<close> differs from \<open>s\<close> in the content cache at most.\<close>

definition cache_only :: "fs \<Rightarrow> fs \<Rightarrow> bool" where
  "cache_only s s' =
     (s' = s\<lparr>cached_files := cached_files s', write_buffer_cached := write_buffer_cached s'\<rparr>)"


section \<open>Names for the results of an upload and for the blocks of release\<close>

text \<open>
  The messages that \<^verbatim>\<open>upload_file\<close> sends for a list of chunks: the \<open>i\<close>-th chunk under the
  name \<^verbatim>\<open>{file_name}_part{i}.txt\<close>, with consecutive ids from the channel's next id on.
\<close>

fun chunk_messages :: "bytes \<Rightarrow> nat \<Rightarrow> nat \<Rightarrow> bytes list \<Rightarrow> message list" where
  "chunk_messages file_name i next_id [] = []"
| "chunk_messages file_name i next_id (c # cs) =
     \<lparr>msg_id = next_id, msg_file_name = file_name @ ''_part'' @ str_of_nat i @ ''.txt'',
      msg_media = c\<rparr> # chunk_messages file_name (i + 1) (Suc next_id) cs"

text \<open>
  The body of \<^verbatim>\<open>if len(self.write_buffer) > 0:\<close> in \<^verbatim>\<open>release\<close>, and the final block of
  \<^verbatim>\<open>release\<close>, as programs of their own; \<open>release_blocks\<close> below shows that \<^verbatim>\<open>release\<close>
  is made of them.
\<close>

definition flush_buffer :: "nat \<Rightarrow> bytes \<Rightarrow> unit prog" where
  "flush_buffer fh data =
     thenM (modify (\<lambda>s. s\<lparr>write_buffer := [], write_buffer_cached := None\<rparr>))
    (bindM (get_row (select_contents_inode fh)) (\<lambda>fname.
     bindM (decode (c_name fname)) (\<lambda>filename.
     bindM (upload_file data fh filename) (\<lambda>telegram_msgs.
     thenM (delete_msgs_for_inode fh)
    (thenM (cursor_execute (DELETE_telegram_messages fh))
    (thenM (for_each telegram_msgs (\<lambda>msg.
              cursor_execute (INSERT_telegram_messages (msg_id msg) fh)))
    (thenM (cursor_execute (UPDATE_inodes Col_size (length data) fh))
           commit)))))))"

definition drop_if_unlinked :: "nat \<Rightarrow> unit prog" where
  "drop_if_unlinked fh =
     bindM (gets (\<lambda>s. inode_open_count s fh)) (\<lambda>c.
       whenM (c = Some 0)
         (thenM (modify (\<lambda>s. s\<lparr>inode_open_count := (inode_open_count s)(fh := None)\<rparr>))
         (bindM (getattr fh) (\<lambda>entry.
            whenM (st_nlink entry = 0)
              (thenM (cursor_execute (DELETE_inodes fh)) commit)))))"

text \<open>\<^verbatim>\<open>/f\<close> created, with \<^verbatim>\<open>b'hello'\<close> in the write buffer.\<close>

definition fs_written :: fs where
  "fs_written = snd (write_op 2 0 ''hello'' fs_created)"


text \<open>A mounted file system with a key, and the attributes of a file just created in it.\<close>

definition fs0_key :: fs where
  "fs0_key = mount (Some tag_fernet) 1000 1000 1"

definition entry_created :: entry_attributes where
  "entry_created =
     \<lparr>st_ino = 2, generation = 0, entry_timeout = 300, attr_timeout = 300,
      st_mode = 33188, st_nlink = 1, st_uid = 1000, st_gid = 1000, st_rdev = 0,
      st_size = 0, st_blksize = 512, st_blocks = 1, st_atime_ns = 5, st_mtime_ns = 5,
      st_ctime_ns = 5\<rparr>"

section \<open>Upcalls\<close>

text \<open>
  The requests of the kernel, one constructor per handler of \<^verbatim>\<open>Operations\<close>, with the
  arguments of the handler that it uses and, where the handler reads the clock, the clock
  reading. \<open>dispatch\<close> runs the handler of a request and drops its reply. \<open>run\<close> serves a
  list of requests one after the other, each in the state that the one before has left,
  whether that one returned or raised.
\<close>

datatype upcall =
    Lookup nat bytes
  | Getattr nat
  | Readlink nat
  | Opendir nat
  | Readdir nat int
  | Unlink nat bytes
  | Rmdir nat bytes
  | Symlink nat bytes bytes request_context nat
  | Rename nat bytes nat bytes nat
  | Link nat nat bytes
  | Setattr nat entry_attributes setattr_fields "nat option" nat
  | Mknod nat bytes nat nat request_context nat
  | Mkdir nat bytes nat request_context nat
  | Statfs
  | Open nat nat
  | Access nat nat
  | Create nat bytes nat nat request_context nat
  | Read nat nat nat
  | Write nat nat bytes
  | Close nat
  | Fsync nat
  | Release nat

fun dispatch :: "upcall \<Rightarrow> unit prog" where
  "dispatch (Lookup inode_p nm) = thenM (lookup inode_p nm) (returnM ())"
| "dispatch (Getattr ino) = thenM (getattr ino) (returnM ())"
| "dispatch (Readlink ino) = thenM (readlink ino) (returnM ())"
| "dispatch (Opendir ino) = thenM (opendir ino) (returnM ())"
| "dispatch (Readdir ino off) = thenM (readdir ino off) (returnM ())"
| "dispatch (Unlink inode_p nm) = unlink inode_p nm"
| "dispatch (Rmdir inode_p nm) = rmdir inode_p nm"
| "dispatch (Symlink inode_p nm target ctx now_ns) =
     thenM (symlink inode_p nm target ctx now_ns) (returnM ())"
| "dispatch (Rename inode_p_old name_old inode_p_new name_new flags) =
     rename inode_p_old name_old inode_p_new name_new flags"
| "dispatch (Link ino new_inode_p new_name) = thenM (link ino new_inode_p new_name) (returnM ())"
| "dispatch (Setattr ino attr flds fh now_ns) =
     thenM (setattr ino attr flds fh now_ns) (returnM ())"
| "dispatch (Mknod inode_p nm md rdev ctx now_ns) =
     thenM (mknod inode_p nm md rdev ctx now_ns) (returnM ())"
| "dispatch (Mkdir inode_p nm md ctx now_ns) =
     thenM (mkdir inode_p nm md ctx now_ns) (returnM ())"
| "dispatch Statfs = thenM statfs (returnM ())"
| "dispatch (Open ino flags) = thenM (open_op ino flags) (returnM ())"
| "dispatch (Access ino md) = thenM (access ino md) (returnM ())"
| "dispatch (Create inode_p nm md flags ctx now_ns) =
     thenM (create inode_p nm md flags ctx now_ns) (returnM ())"
| "dispatch (Read fh off len) = thenM (read fh off len) (returnM ())"
| "dispatch (Write fh off buf) = thenM (write_op fh off buf) (returnM ())"
| "dispatch (Close fh) = close fh"
| "dispatch (Fsync fh) = fsync fh"
| "dispatch (Release fh) = release fh"

fun run :: "upcall list \<Rightarrow> fs \<Rightarrow> fs" where
  "run [] s = s"
| "run (u # us) s = run us (snd (dispatch u s))"





section \<open>Properties\<close>

subsection \<open>Evaluation rules\<close>

lemmas monad_defs =
  returnM_def raiseM_def bindM_def thenM_def try_except_def gets_def modify_def whenM_def

lemmas db_defs =
  cursor_execute_def db_execute_def commit_def get_row_def get_rows_def select_inodes_def
  select_contents_inode_def select_contents_name_def count_contents_inode_def
  count_contents_parent_def select_messages_def contents_key_def max_list_def
  set_inode_col_def

lemmas client_defs =
  cache_pop_def cache_store_def cache_setitem_def cache_nonempty_def get_cached_file_def
  cache_touch_def currsize_def unshare_def send_file_def delete_messages_def
  get_messages_def download_message_def upload_file_def download_file_def
  make_chunks_def FILE_MAX_SIZE_BYTES_def CACHE_MAXSIZE_def

lemmas ops_defs =
  getattr_def lookup_def no_row_is_ENOENT_def bytes_eq_str_def decode_def cont_byte_def
  delete_msgs_for_inode_def remove'_def unlink_def rmdir_def create'_def create_def
  incr_open_count_def open_op_def replace'_def rename_def link_def get_telegram_data_def
  read_def extend_write_buffer_def write_op_def release_def setattr_def S_ISDIR_def
  ROOT_INODE_def ROOT_MODE_def init_tables_def mount_def new_fs_def

lemma fs0_eval:
  "fs0 =
     \<lparr>db = \<lparr>inodes = [\<lparr>i_id = 1, i_uid = 1000, i_gid = 1000, i_mode = 16877, i_mtime_ns = 1,
                           i_atime_ns = 1, i_ctime_ns = 1, i_target = None, i_size = 0,
                           i_rdev = 0\<rparr>],
            contents = [\<lparr>c_rowid = 1, c_name = ''..'', c_inode = 1, c_parent_inode = 1\<rparr>],
            telegram_messages = [], contents_seq = 1\<rparr>,
      lastrowid = 1,
      inode_open_count = Map.empty,
      write_buffer = [],
      write_buffer_cached = None,
      channel = [],
      next_msg_id = 1,
      encryption_key = None,
      cache_maxsize = 5000000000,
      cached_files = [],
      fname_to_msgs = Map.empty,
      effects = [Execute (INSERT_inodes_id 1 16877 1000 1000 1),
                 Execute (INSERT_contents ''..'' 1 1), Commit]\<rparr>"
  by (simp add: fs0_def monad_defs db_defs ops_defs CACHE_MAXSIZE_def)

lemma fs_created_eval:
  "fs_created =
     \<lparr>db = \<lparr>inodes = [\<lparr>i_id = 1, i_uid = 1000, i_gid = 1000, i_mode = 16877, i_mtime_ns = 1,
                           i_atime_ns = 1, i_ctime_ns = 1, i_target = None, i_size = 0,
                           i_rdev = 0\<rparr>,
                         \<lparr>i_id = 2, i_uid = 1000, i_gid = 1000, i_mode = 33188, i_mtime_ns = 5,
                           i_atime_ns = 5, i_ctime_ns = 5, i_target = None, i_size = 0,
                           i_rdev = 0\<rparr>],
            contents = [\<lparr>c_rowid = 1, c_name = ''..'', c_inode = 1, c_parent_inode = 1\<rparr>,
                        \<lparr>c_rowid = 2, c_name = ''f'', c_inode = 2, c_parent_inode = 1\<rparr>],
            telegram_messages = [], contents_seq = 2\<rparr>,
      lastrowid = 2,
      inode_open_count = [Suc (Suc 0) \<mapsto> 1],
      write_buffer = [],
      write_buffer_cached = None,
      channel = [],
      next_msg_id = 1,
      encryption_key = None,
      cache_maxsize = 5000000000,
      cached_files = [],
      fname_to_msgs = Map.empty,
      effects = [Execute (INSERT_inodes_id 1 16877 1000 1000 1),
                 Execute (INSERT_contents ''..'' 1 1), Commit,
                 Execute (INSERT_inodes 1000 1000 33188 5 None 0),
                 Execute (INSERT_contents ''f'' 2 1), Commit]\<rparr>"
  by (simp add: fs_created_def fs0_eval ctx0_def monad_defs db_defs
        getattr_def no_row_is_ENOENT_def create'_def create_def incr_open_count_def
        ROOT_INODE_def)

subsection \<open>Reading a handle that has no inode row\<close>

lemma read_no_row:
  "select_inodes fh (db s) = [] \<Longrightarrow> read fh off len s = (Inl NoSuchRowError, s)"
  by (simp add: read_def bindM_def get_row_def)

text \<open>
  C6. The claim: \<^verbatim>\<open>read\<close> of a handle for which no \<^verbatim>\<open>inodes\<close> row exists returns
  the empty bytes. On the code, \<^verbatim>\<open>get_row\<close> raises \<^verbatim>\<open>NoSuchRowError\<close> before the
  test \<^verbatim>\<open>row is None\<close> is reached: reading handle 5 of the newly mounted file system,
  which has the root inode only, raises and returns nothing.
\<close>

theorem read_missing_inode_raises:
  "read 5 0 10 fs0 = (Inl NoSuchRowError, fs0)
   \<and> fst (read 5 0 10 fs0) \<noteq> Inr []"
  by (simp add: read_no_row select_inodes_def fs0_eval)

subsection \<open>Monad and frame rules\<close>

lemma bindM_Inr: "m s = (Inr x, s') \<Longrightarrow> bindM m f s = f x s'"
  by (simp add: bindM_def)

lemma bindM_Inl: "m s = (Inl e, s') \<Longrightarrow> bindM m f s = (Inl e, s')"
  by (simp add: bindM_def)

lemma thenM_Inr: "m s = (Inr x, s') \<Longrightarrow> thenM m n s = n s'"
  by (simp add: thenM_def bindM_def)

lemma thenM_Inl: "m s = (Inl e, s') \<Longrightarrow> thenM m n s = (Inl e, s')"
  by (simp add: thenM_def bindM_def)

lemma getattr_state: "snd (getattr ino s) = s"
  by (simp add: getattr_def no_row_is_ENOENT_def monad_defs get_row_def
        count_contents_inode_def split: list.splits)

lemma lookup_state: "snd (lookup p nm s) = s"
proof -
  have "snd (no_row_is_ENOENT
               (bindM (get_row (select_contents_name nm p)) (\<lambda>r. returnM (c_inode r))) s) = s"
    by (simp add: no_row_is_ENOENT_def monad_defs get_row_def split: list.splits)
  then obtain r where
    r: "no_row_is_ENOENT
          (bindM (get_row (select_contents_name nm p)) (\<lambda>r. returnM (c_inode r))) s = (r, s)"
    by (cases "no_row_is_ENOENT
          (bindM (get_row (select_contents_name nm p)) (\<lambda>r. returnM (c_inode r))) s") auto
  show ?thesis
  proof (cases r)
    case (Inl e)
    with r show ?thesis by (simp add: lookup_def bytes_eq_str_def bindM_Inl)
  next
    case (Inr ino)
    with r show ?thesis by (simp add: lookup_def bytes_eq_str_def bindM_Inr getattr_state)
  qed
qed

lemma lookup_run: "fst (lookup p nm s) = r \<Longrightarrow> lookup p nm s = (r, s)"
  using lookup_state [of p nm s] by (cases "lookup p nm s") auto

lemma map_of_filter_other: "map_of (filter (\<lambda>e. fst e \<noteq> k) items) k = None"
  by (induction items) auto

lemma map_of_filter_same: "map_of (filter (\<lambda>e. fst e = k) items) k = map_of items k"
  by (induction items) auto

lemma map_of_cache_touch: "map_of (cache_touch k items) k = map_of items k"
  by (simp add: cache_touch_def map_add_def map_of_filter_other map_of_filter_same)

lemma download_all_Some:
  "download_all (map Some msgs) s = (Inr (concat (map msg_media msgs)), s)"
  by (induction msgs) (simp_all add: monad_defs download_message_def)

subsection \<open>Chunking\<close>

lemma make_chunks_small: "length xs \<le> m \<Longrightarrow> make_chunks m xs = [xs]"
  by (simp add: make_chunks_def)

lemma make_chunks_length:
  "m < length xs \<Longrightarrow> length (make_chunks m xs) = (length xs + m) div m"
  by (simp add: make_chunks_def Let_def)

lemma make_chunks_nth:
  "m < length xs \<Longrightarrow> i < (length xs + m) div m
     \<Longrightarrow> make_chunks m xs ! i = take m (drop (i * m) xs)"
  by (simp add: make_chunks_def Let_def)

lemma concat_slices: "concat (map (\<lambda>i. take m (drop (i * m) xs)) [0 ..< n]) = take (n * m) xs"
proof (induction n)
  case 0
  show ?case by simp
next
  case (Suc n)
  have "take (n * m) xs @ take m (drop (n * m) xs) = take (n * m + m) xs"
    by (simp add: take_add)
  with Suc show ?case by (simp add: add.commute)
qed

lemma concat_make_chunks: "0 < m \<Longrightarrow> concat (make_chunks m xs) = xs"
proof (cases "m < length xs")
  case False
  then show ?thesis by (simp add: make_chunks_def)
next
  case True
  assume m: "0 < m"
  have "(length xs + m) div m = Suc (length xs div m)"
    using m by (simp add: div_add_self2)
  then have "length xs < ((length xs + m) div m) * m"
    using m dividend_less_div_times [of m "length xs"] by simp
  then show ?thesis
    using True by (simp add: make_chunks_def Let_def concat_slices)
qed

lemma make_chunks_multiple:
  assumes "0 < m" and "2 \<le> k" and "length xs = k * m"
  shows "length (make_chunks m xs) = k + 1 \<and> last (make_chunks m xs) = []"
proof -
  have big: "m < length xs"
    using assms by (cases k) auto
  have n: "(length xs + m) div m = k + 1"
    using assms by simp
  have "last (make_chunks m xs) = take m (drop (k * m) xs)"
    using big n by (simp add: make_chunks_def Let_def)
  also have "\<dots> = []"
    using assms by simp
  finally show ?thesis
    using big n by (simp add: make_chunks_length)
qed

text \<open>
  C2. The claim: a payload is split into exactly \<open>ceil(len / FILE_MAX_SIZE)\<close> chunks, so
  one of \<open>2 * FILE_MAX_SIZE\<close> bytes into 2. The code computes
  \<^verbatim>\<open>(len + FILE_MAX_SIZE_BYTES) // FILE_MAX_SIZE_BYTES\<close>: a payload of 4000000000 bytes
  is split into 3 chunks, the last of them empty.
\<close>

theorem make_chunks_exact_multiple_extra_chunk:
  "length (make_chunks FILE_MAX_SIZE_BYTES
             (replicate (2 * FILE_MAX_SIZE_BYTES) (CHR 0x00))) = 3
   \<and> make_chunks FILE_MAX_SIZE_BYTES
        (replicate (2 * FILE_MAX_SIZE_BYTES) (CHR 0x00)) ! 2 = []
   \<and> (2 * FILE_MAX_SIZE_BYTES + FILE_MAX_SIZE_BYTES - 1) div FILE_MAX_SIZE_BYTES = 2"
  by (simp add: make_chunks_def FILE_MAX_SIZE_BYTES_def)

subsection \<open>Unlinking an open file\<close>

lemma remove'_open:
  assumes "inode_open_count s (st_ino entry) = Some c"
      and "filter (\<lambda>r. c_parent_inode r = st_ino entry) (contents (db s)) = []"
  shows "remove' inode_p nm entry s = (Inr (), s\<lparr>effects := effects s @ [Commit]\<rparr>)"
  using assms by (simp add: remove'_def monad_defs db_defs)

text \<open>
  C3. The claim: \<^verbatim>\<open>unlink\<close> of a file that is open deletes its \<^verbatim>\<open>contents\<close> row and
  leaves the rest to the final \<^verbatim>\<open>release\<close>. On the code, both deleting branches of
  \<^verbatim>\<open>_remove\<close> require the inode not to be in the open-count map, so for an open file
  nothing is deleted at all: after \<^verbatim>\<open>create\<close> of \<^verbatim>\<open>/f\<close> (open count 1),
  \<^verbatim>\<open>unlink(ROOT, b'f')\<close> succeeds and the database is what it was, the row of \<^verbatim>\<open>f\<close>
  included.
\<close>

theorem unlink_open_file_keeps_contents_row:
  "inode_open_count fs_created 2 = Some 1
   \<and> fst (unlink ROOT_INODE ''f'' fs_created) = Inr ()
   \<and> db (snd (unlink ROOT_INODE ''f'' fs_created)) = db fs_created
   \<and> map c_inode (select_contents_name ''f'' ROOT_INODE
                    (db (snd (unlink ROOT_INODE ''f'' fs_created)))) = [2]"
  by (simp add: fs_created_eval monad_defs db_defs ops_defs Let_def)

subsection \<open>What the read path changes\<close>



lemma cache_only_fields:
  assumes "cache_only s s'"
  shows "db s' = db s" and "write_buffer s' = write_buffer s" and "channel s' = channel s"
    and "encryption_key s' = encryption_key s" and "effects s' = effects s"
    and "inode_open_count s' = inode_open_count s" and "cache_maxsize s' = cache_maxsize s"
    and "next_msg_id s' = next_msg_id s"
  using assms by (cases s, cases s', simp add: cache_only_def)+

lemma cache_nonempty_cache_only: "cache_only s (snd (cache_nonempty fh s))"
  by (simp add: cache_nonempty_def monad_defs cache_only_def split: option.splits)

lemma cache_nonempty_ok: "\<exists>hit. fst (cache_nonempty fh s) = Inr hit"
  by (simp add: cache_nonempty_def monad_defs split: option.splits)



lemma cache_nonempty_run:
  "\<exists>hit s1. cache_nonempty fh s = (Inr hit, s1) \<and> cache_only s s1"
  using cache_nonempty_ok [of fh s] cache_nonempty_cache_only [of s fh]
  by (cases "cache_nonempty fh s") auto



lemma get_telegram_data_ok: "\<exists>d sh. fst (get_telegram_data fh s) = Inr (d, sh)"
  by (auto simp: get_telegram_data_def get_cached_file_def cache_nonempty_def monad_defs
        split: sum.splits option.splits prod.splits)

subsection \<open>The write contract\<close>

text \<open>
  Where the write buffer is not empty or an \<^verbatim>\<open>inodes\<close> row exists for the handle,
  \<^verbatim>\<open>write\<close> does what its contract says: it returns \<open>len(buf)\<close>; an empty buffer is first
  seeded with what \<^verbatim>\<open>get_telegram_data\<close> gives (\<open>seed\<close>); then \<open>buf\<close> is appended when
  the offset is the buffer's length, and otherwise the buffer becomes
  \<^verbatim>\<open>buffer[:offset] + buf + buffer[offset+len(buf):]\<close>.
\<close>

theorem write_contract:
  assumes "write_buffer s \<noteq> [] \<or> select_inodes fh (db s) = [row]"
      and "fst (get_telegram_data fh s) = Inr (seed, shared)"
  shows "fst (write_op fh off buf s) = Inr (length buf)
         \<and> write_buffer (snd (write_op fh off buf s)) =
             (let buffer = (if write_buffer s = [] then seed else write_buffer s)
              in if off = length buffer then buffer @ buf
                 else take off buffer @ buf @ drop (off + length buf) buffer)"
proof (cases "write_buffer s = []")
  case False
  then show ?thesis
    by (simp add: write_op_def monad_defs extend_write_buffer_def Let_def)
next
  case True
  with assms(1) have row: "select_inodes fh (db s) = [row]"
    by simp
  obtain s1 where g: "get_telegram_data fh s = (Inr (seed, shared), s1)"
    using assms(2) by (cases "get_telegram_data fh s") auto
  show ?thesis
    using True row g
    by (simp add: write_op_def monad_defs extend_write_buffer_def get_row_def Let_def)
qed

text \<open>
  An instance: the first write to the newly created \<^verbatim>\<open>/f\<close>, whose buffer is seeded with
  the empty bytes.
\<close>

theorem write_contract_witness:
  "map i_id (select_inodes 2 (db fs_created)) = [2]
   \<and> fst (get_telegram_data 2 fs_created) = Inr ([], False)
   \<and> fst (write_op 2 0 ''hi'' fs_created) = Inr 2
   \<and> write_buffer (snd (write_op 2 0 ''hi'' fs_created)) = ''hi''"
proof -
  have h1: "select_inodes 2 (db fs_created) =
              [\<lparr>i_id = 2, i_uid = 1000, i_gid = 1000, i_mode = 33188, i_mtime_ns = 5,
                i_atime_ns = 5, i_ctime_ns = 5, i_target = None, i_size = 0, i_rdev = 0\<rparr>]"
    by (simp add: fs_created_eval select_inodes_def)
  have h2: "fst (get_telegram_data 2 fs_created) = Inr ([], False)"
    by (simp add: fs_created_eval monad_defs db_defs client_defs ops_defs)
  have h3: "write_buffer fs_created = []"
    by (simp add: fs_created_eval)
  from write_contract [OF disjI2 [OF h1] h2, of 0 "''hi''"] h1 h2 h3 show ?thesis
    by (simp add: Let_def)
qed

text \<open>
  C9. The claim: every \<^verbatim>\<open>write(fh, offset, buf)\<close> returns \<open>len(buf)\<close>; the empty buffer is
  seeded only if an \<^verbatim>\<open>inodes\<close> row exists for the handle, and then \<open>buf\<close> is appended or
  written over the range. So with an empty buffer and no row for the handle,
  \<^verbatim>\<open>write(5, 0, b'a')\<close> should return 1 and leave \<^verbatim>\<open>b'a'\<close> in the buffer. On the code,
  \<^verbatim>\<open>get_row\<close> raises \<^verbatim>\<open>NoSuchRowError\<close> before the test \<^verbatim>\<open>row != None\<close> is reached: on
  the newly mounted file system, which has the root inode only, the call raises, returns
  nothing and leaves the buffer empty.
\<close>

theorem write_without_inode_row_raises:
  "write_buffer fs0 = []
   \<and> select_inodes 5 (db fs0) = []
   \<and> write_op 5 0 ''a'' fs0 = (Inl NoSuchRowError, fs0)
   \<and> fst (write_op 5 0 ''a'' fs0) \<noteq> Inr 1
   \<and> write_buffer (snd (write_op 5 0 ''a'' fs0)) \<noteq> ''a''"
  by (simp add: fs0_eval write_op_def monad_defs db_defs)

subsection \<open>Renaming over an existing file\<close>

text \<open>
  C10. When \<^verbatim>\<open>rename\<close> overwrites an entry whose inode has one link, no children and no
  open handle, \<^verbatim>\<open>_replace\<close> deletes that inode's row and its remote messages, and the
  \<^verbatim>\<open>telegram_messages\<close> table is left exactly as it was: the mapping rows of the deleted
  inode stay.
\<close>

theorem rename_over_file_keeps_message_rows:
  assumes "fst (lookup inode_p_old name_old s) = Inr entry_old"
      and "fst (lookup inode_p_new name_new s) = Inr entry_new"
      and "filter (\<lambda>r. c_parent_inode r = st_ino entry_new) (contents (db s)) = []"
      and "st_nlink entry_new = 1"
      and "inode_open_count s (st_ino entry_new) = None"
  shows "fst (rename inode_p_old name_old inode_p_new name_new 0 s) = Inr ()
         \<and> select_inodes (st_ino entry_new)
              (db (snd (rename inode_p_old name_old inode_p_new name_new 0 s))) = []
         \<and> channel (snd (rename inode_p_old name_old inode_p_new name_new 0 s)) =
             filter (\<lambda>m. msg_id m \<notin> set (map m_id (select_messages (st_ino entry_new) (db s))))
                    (channel s)
         \<and> telegram_messages (db (snd (rename inode_p_old name_old inode_p_new name_new 0 s))) =
             telegram_messages (db s)"
proof -
  have l1: "lookup inode_p_old name_old s = (Inr entry_old, s)"
    using assms(1) by (rule lookup_run)
  have l2: "lookup inode_p_new name_new s = (Inr entry_new, s)"
    using assms(2) by (rule lookup_run)
  show ?thesis
    using assms(3-5) l1 l2
    by (simp add: rename_def replace'_def monad_defs cursor_execute_def db_execute_def commit_def
          get_row_def count_contents_parent_def select_inodes_def delete_msgs_for_inode_def
          delete_messages_def select_messages_def)
qed

text \<open>
  By contrast \<^verbatim>\<open>_remove\<close>, in the same situation, also deletes the mapping rows.
\<close>

lemma remove'_deletes_message_rows:
  assumes "filter (\<lambda>r. c_parent_inode r = st_ino entry) (contents (db s)) = []"
      and "st_nlink entry = 1"
      and "inode_open_count s (st_ino entry) = None"
  shows "fst (remove' inode_p nm entry s) = Inr ()
         \<and> telegram_messages (db (snd (remove' inode_p nm entry s))) =
             filter (\<lambda>r. m_inode r \<noteq> st_ino entry) (telegram_messages (db s))"
  using assms
  by (simp add: remove'_def monad_defs cursor_execute_def commit_def get_row_def
        count_contents_parent_def delete_msgs_for_inode_def delete_messages_def)

lemma fs_hello_db:
  "db fs_hello =
     \<lparr>inodes = [\<lparr>i_id = 1, i_uid = 1000, i_gid = 1000, i_mode = 16877, i_mtime_ns = 1,
                  i_atime_ns = 1, i_ctime_ns = 1, i_target = None, i_size = 0, i_rdev = 0\<rparr>,
                \<lparr>i_id = 2, i_uid = 1000, i_gid = 1000, i_mode = 33188, i_mtime_ns = 5,
                  i_atime_ns = 5, i_ctime_ns = 5, i_target = None, i_size = 5, i_rdev = 0\<rparr>],
      contents = [\<lparr>c_rowid = 1, c_name = ''..'', c_inode = 1, c_parent_inode = 1\<rparr>,
                  \<lparr>c_rowid = 2, c_name = ''f'', c_inode = 2, c_parent_inode = 1\<rparr>],
      telegram_messages = [\<lparr>m_id = 1, m_inode = 2\<rparr>], contents_seq = 2\<rparr>"
  and fs_hello_channel:
  "channel fs_hello = [\<lparr>msg_id = 1, msg_file_name = ''f_part0.txt'', msg_media = ''hello''\<rparr>]"
  and fs_hello_rest:
  "inode_open_count fs_hello 2 = None" "inode_open_count fs_hello 3 = None"
  "write_buffer fs_hello = []" "cached_files fs_hello = []" "encryption_key fs_hello = None"
  "cache_maxsize fs_hello = 5000000000" "lastrowid fs_hello = 1"
  by (simp_all add: fs_hello_def fs_created_eval monad_defs db_defs client_defs ops_defs Let_def)

theorem rename_over_file_keeps_message_rows_witness:
  "fst (lookup ROOT_INODE ''g'' fs_two) = Inr entry_g
   \<and> fst (lookup ROOT_INODE ''f'' fs_two) = Inr entry_f
   \<and> map m_id (select_messages 2 (db fs_two)) = [1]
   \<and> map msg_id (channel fs_two) = [1]
   \<and> fst (rename ROOT_INODE ''g'' ROOT_INODE ''f'' 0 fs_two) = Inr ()
   \<and> select_inodes 2 (db (snd (rename ROOT_INODE ''g'' ROOT_INODE ''f'' 0 fs_two))) = []
   \<and> channel (snd (rename ROOT_INODE ''g'' ROOT_INODE ''f'' 0 fs_two)) = []
   \<and> telegram_messages (db (snd (rename ROOT_INODE ''g'' ROOT_INODE ''f'' 0 fs_two))) =
       [\<lparr>m_id = 1, m_inode = 2\<rparr>]"
proof -
  have d: "db fs_two =
     \<lparr>inodes = [\<lparr>i_id = 1, i_uid = 1000, i_gid = 1000, i_mode = 16877, i_mtime_ns = 1,
                  i_atime_ns = 1, i_ctime_ns = 1, i_target = None, i_size = 0, i_rdev = 0\<rparr>,
                \<lparr>i_id = 2, i_uid = 1000, i_gid = 1000, i_mode = 33188, i_mtime_ns = 5,
                  i_atime_ns = 5, i_ctime_ns = 5, i_target = None, i_size = 5, i_rdev = 0\<rparr>,
                \<lparr>i_id = 3, i_uid = 1000, i_gid = 1000, i_mode = 33188, i_mtime_ns = 7,
                  i_atime_ns = 7, i_ctime_ns = 7, i_target = None, i_size = 0, i_rdev = 0\<rparr>],
      contents = [\<lparr>c_rowid = 1, c_name = ''..'', c_inode = 1, c_parent_inode = 1\<rparr>,
                  \<lparr>c_rowid = 2, c_name = ''f'', c_inode = 2, c_parent_inode = 1\<rparr>,
                  \<lparr>c_rowid = 3, c_name = ''g'', c_inode = 3, c_parent_inode = 1\<rparr>],
      telegram_messages = [\<lparr>m_id = 1, m_inode = 2\<rparr>], contents_seq = 3\<rparr>"
    and c: "channel fs_two = channel fs_hello"
    and o: "inode_open_count fs_two 2 = None"
    by (simp_all add: fs_two_def fs_hello_db fs_hello_rest ctx0_def create_def create'_def getattr_def
          no_row_is_ENOENT_def incr_open_count_def monad_defs db_defs ROOT_INODE_def)
  have h1: "fst (lookup ROOT_INODE ''g'' fs_two) = Inr entry_g"
    by (simp add: d lookup_def getattr_def no_row_is_ENOENT_def bytes_eq_str_def monad_defs
          db_defs ROOT_INODE_def entry_g_def)
  have h2: "fst (lookup ROOT_INODE ''f'' fs_two) = Inr entry_f"
    by (simp add: d lookup_def getattr_def no_row_is_ENOENT_def bytes_eq_str_def monad_defs
          db_defs ROOT_INODE_def entry_f_def)
  have h3: "filter (\<lambda>r. c_parent_inode r = st_ino entry_f) (contents (db fs_two)) = []"
    by (simp add: d entry_f_def)
  have h4: "st_nlink entry_f = 1"
    by (simp add: entry_f_def)
  have h5: "inode_open_count fs_two (st_ino entry_f) = None"
    by (simp add: o entry_f_def)
  from rename_over_file_keeps_message_rows [OF h1 h2 h3 h4 h5] h1 h2 show ?thesis
    by (simp add: d c fs_hello_channel entry_f_def select_messages_def)
qed

subsection \<open>A payload that fails authentication\<close>

text \<open>
  C4, as amended. With a key configured, no cached content for the handle, and stored
  messages whose concatenation the cipher rejects, \<^verbatim>\<open>read\<close> does not fail:
  \<^verbatim>\<open>get_telegram_data\<close> catches the exception and gives the empty bytes, and \<^verbatim>\<open>read\<close>
  returns the empty byte string.
\<close>

theorem read_swallows_decryption_failure:
  assumes "select_inodes fh (db s) = [row]"
      and "fst (cache_nonempty fh s) = Inr None"
      and "select_messages fh (db s) = mrow # mrows"
      and "map (\<lambda>i. find (\<lambda>m. msg_id m = i) (channel s)) (map m_id (mrow # mrows)) = map Some msgs"
      and "encryption_key s = Some f"
      and "decrypt f (concat (map msg_media msgs)) = None"
  shows "fst (read fh off len s) = Inr []"
proof -
  obtain hit s1 where c: "cache_nonempty fh s = (Inr hit, s1)" and s1: "cache_only s s1"
    using cache_nonempty_run by blast
  from c assms(2) have hit: "hit = None"
    by simp
  have same: "db s1 = db s" "channel s1 = channel s" "encryption_key s1 = encryption_key s"
    using cache_only_fields [OF s1] by simp_all
  have "map_of (cached_files s1) fh = map_of (cached_files s) fh"
    using c by (auto simp: cache_nonempty_def monad_defs map_of_cache_touch split: option.splits)
  then have "fst (cache_nonempty fh s1) = Inr None"
    using assms(2) by (auto simp: cache_nonempty_def monad_defs split: option.splits if_splits)
  then obtain s2 where c2: "cache_nonempty fh s1 = (Inr None, s2)" and s2: "cache_only s1 s2"
    using cache_nonempty_run [of fh s1] by auto
  have same2: "channel s2 = channel s" "encryption_key s2 = encryption_key s"
    using cache_only_fields [OF s2] same by simp_all
  have gm: "get_messages (map m_id (mrow # mrows)) s2 = (Inr (map Some msgs), s2)"
    using assms(4) same2 by (simp add: get_messages_def gets_def)
  have da: "download_all (map Some msgs) s2 = (Inr (concat (map msg_media msgs)), s2)"
    by (rule download_all_Some)
  have dl: "download_file fh (map m_id (mrow # mrows)) s1 = (Inl InvalidToken, s2)"
    using same2 assms(5,6)
    by (simp add: download_file_def monad_defs c2 gm da del: list.map)
  have "get_telegram_data fh s = (Inr ([], False), s2)"
    using c hit same assms(3) dl
    by (simp add: get_telegram_data_def get_cached_file_def bindM_Inr try_except_def get_rows_def
          bindM_def returnM_def)
  then show ?thesis
    using assms(1) by (simp add: read_def bindM_def get_row_def returnM_def)
qed

lemma fs_secret_eval:
  "db fs_secret =
     \<lparr>inodes = [\<lparr>i_id = 1, i_uid = 1000, i_gid = 1000, i_mode = 16877, i_mtime_ns = 1,
                  i_atime_ns = 1, i_ctime_ns = 1, i_target = None, i_size = 0, i_rdev = 0\<rparr>,
                \<lparr>i_id = 2, i_uid = 1000, i_gid = 1000, i_mode = 33188, i_mtime_ns = 5,
                  i_atime_ns = 5, i_ctime_ns = 5, i_target = None, i_size = 6, i_rdev = 0\<rparr>],
      contents = [\<lparr>c_rowid = 1, c_name = ''..'', c_inode = 1, c_parent_inode = 1\<rparr>,
                  \<lparr>c_rowid = 2, c_name = ''f'', c_inode = 2, c_parent_inode = 1\<rparr>],
      telegram_messages = [\<lparr>m_id = 1, m_inode = 2\<rparr>], contents_seq = 2\<rparr>"
  "channel fs_secret = [\<lparr>msg_id = 1, msg_file_name = ''f_part0.txt'', msg_media = ''#secret''\<rparr>]"
  "cached_files fs_secret = []"
  "encryption_key fs_secret = Some tag_fernet"
  "cache_maxsize fs_secret = 5000000000"
  "write_buffer_cached fs_secret = None"
  by (simp_all add: fs_secret_def ctx0_def tag_fernet_def monad_defs db_defs client_defs ops_defs
        Let_def)

lemma fs_tampered_eval:
  "db fs_tampered = db fs_secret"
  "channel fs_tampered = [\<lparr>msg_id = 1, msg_file_name = ''f_part0.txt'', msg_media = ''!secret''\<rparr>]"
  "cached_files fs_tampered = []"
  "encryption_key fs_tampered = Some tag_fernet"
  "cache_maxsize fs_tampered = 5000000000"
  "write_buffer_cached fs_tampered = None"
  by (simp_all add: fs_tampered_def fs_secret_eval corrupt_def)

theorem read_swallows_decryption_failure_witness:
  "map m_id (select_messages 2 (db fs_tampered)) = [1]
   \<and> map msg_media (channel fs_tampered) = [''!secret'']
   \<and> decrypt tag_fernet ''!secret'' = None
   \<and> fst (read 2 0 6 fs_tampered) = Inr []"
proof -
  have h1: "select_inodes 2 (db fs_tampered) =
              [\<lparr>i_id = 2, i_uid = 1000, i_gid = 1000, i_mode = 33188, i_mtime_ns = 5,
                i_atime_ns = 5, i_ctime_ns = 5, i_target = None, i_size = 6, i_rdev = 0\<rparr>]"
    by (simp add: fs_tampered_eval fs_secret_eval select_inodes_def)
  have h2: "fst (cache_nonempty 2 fs_tampered) = Inr None"
    by (simp add: cache_nonempty_def monad_defs fs_tampered_eval)
  have h3: "select_messages 2 (db fs_tampered) = \<lparr>m_id = 1, m_inode = 2\<rparr> # []"
    by (simp add: fs_tampered_eval fs_secret_eval select_messages_def)
  have h4: "map (\<lambda>i. find (\<lambda>m. msg_id m = i) (channel fs_tampered))
              (map m_id (\<lparr>m_id = 1, m_inode = 2\<rparr> # [])) =
            map Some [\<lparr>msg_id = 1, msg_file_name = ''f_part0.txt'', msg_media = ''!secret''\<rparr>]"
    by (simp add: fs_tampered_eval)
  have h5: "encryption_key fs_tampered = Some tag_fernet"
    by (simp add: fs_tampered_eval)
  have h6: "decrypt tag_fernet
              (concat (map msg_media
                 [\<lparr>msg_id = 1, msg_file_name = ''f_part0.txt'', msg_media = ''!secret''\<rparr>])) = None"
    by (simp add: tag_fernet_def)
  from read_swallows_decryption_failure [OF h1 h2 h3 h4 h5 h6, of 0 6] h3 h6 show ?thesis
    by (simp add: fs_tampered_eval)
qed

text \<open>
  The claim as stated, an \<open>EIO\<close> error, fails: \<^verbatim>\<open>b'secret'\<close> is written and released
  under a key, the stored payload \<^verbatim>\<open>b'#secret'\<close> is changed to \<^verbatim>\<open>b'!secret'\<close>, and the
  next \<^verbatim>\<open>read\<close> returns the empty bytes. Before the change the same \<^verbatim>\<open>read\<close> returned
  \<^verbatim>\<open>b'secret'\<close>.
\<close>

theorem read_of_tampered_payload_is_not_EIO:
  "fst (read 2 0 6 fs_secret) = Inr ''secret''
   \<and> fst (read 2 0 6 fs_tampered) = Inr []
   \<and> fst (read 2 0 6 fs_tampered) \<noteq> Inl (FUSEError EIO)"
proof -
  have s: "fs_secret = fs_secret\<lparr>db := db fs_secret, channel := channel fs_secret,
             cached_files := cached_files fs_secret, encryption_key := encryption_key fs_secret,
             cache_maxsize := cache_maxsize fs_secret,
             write_buffer_cached := write_buffer_cached fs_secret\<rparr>"
    by simp
  have t: "fs_tampered = fs_tampered\<lparr>db := db fs_tampered, channel := channel fs_tampered,
             cached_files := cached_files fs_tampered, encryption_key := encryption_key fs_tampered,
             cache_maxsize := cache_maxsize fs_tampered,
             write_buffer_cached := write_buffer_cached fs_tampered\<rparr>"
    by simp
  have 1: "fst (read 2 0 6 fs_secret) = Inr ''secret''"
    by (subst s) (simp add: fs_secret_eval tag_fernet_def monad_defs db_defs client_defs
          read_def get_telegram_data_def Let_def)
  have 2: "fst (read 2 0 6 fs_tampered) = Inr []"
    by (subst t) (simp add: fs_tampered_eval fs_secret_eval tag_fernet_def monad_defs db_defs
          client_defs read_def get_telegram_data_def Let_def)
  from 1 2 show ?thesis by simp
qed

subsection \<open>Truncation\<close>

text \<open>
  C5. The claim: after \<^verbatim>\<open>setattr\<close> with the size \<open>S\<close>, applied twice, the size column is
  \<open>S\<close> and a read of the whole file returns at most \<open>S\<close> bytes. On the code the
  truncated bytes are computed and dropped: \<^verbatim>\<open>/f\<close> holds the five bytes \<^verbatim>\<open>b'hello'\<close>,
  \<^verbatim>\<open>setattr\<close> sets the size 2 twice, the size column is 2, and \<^verbatim>\<open>read(2, 0, 5)\<close> still
  returns all five bytes.
\<close>

theorem read_after_truncate_returns_old_content:
  "map i_size (select_inodes 2 (db fs_hello)) = [5]
   \<and> map i_size (select_inodes 2 (db fs_truncated)) = [2]
   \<and> fst (read 2 0 5 fs_truncated) = Inr ''hello''"
  by (simp add: fs_truncated_def fs_hello_def fs_created_eval attr_size_def size_only_def
        monad_defs db_defs client_defs ops_defs Let_def)

subsection \<open>Releases that lose the write buffer\<close>

text \<open>
  C7. The claim: every \<^verbatim>\<open>release(fh)\<close> with a non-empty write buffer snapshots and clears
  the buffer, uploads the content, deletes the old remote messages, deletes the old
  mapping rows, inserts the new message ids, sets the size and commits, in this order.
  On the code, between the clearing of the buffer and the upload, the name of the file
  is read with \<^verbatim>\<open>get_row\<close>, which raises for a file with two names. \<^verbatim>\<open>/f\<close>, also linked
  as \<^verbatim>\<open>/g\<close>, has \<^verbatim>\<open>b'hi'\<close> in the buffer: \<^verbatim>\<open>release(2)\<close> clears the buffer and raises
  \<^verbatim>\<open>NoUniqueValueError\<close>; no step after the first takes place: nothing is uploaded,
  nothing is deleted, the database is what it was and nothing is committed.
\<close>

theorem release_of_hard_linked_file_drops_buffer:
  "write_buffer fs_linked = ''hi''
   \<and> map c_name (select_contents_inode 2 (db fs_linked)) = [''f'', ''g'']
   \<and> fst (release 2 fs_linked) = Inl NoUniqueValueError
   \<and> write_buffer (snd (release 2 fs_linked)) = []
   \<and> effects (snd (release 2 fs_linked)) = effects fs_linked
   \<and> db (snd (release 2 fs_linked)) = db fs_linked
   \<and> channel (snd (release 2 fs_linked)) = []"
  by (simp add: fs_linked_def fs_created_eval monad_defs db_defs client_defs ops_defs Let_def)

text \<open>
  C1. The claim: for every byte sequence \<open>B\<close>, after \<open>B\<close> is written at offset 0 to a
  newly created file and the file is released and opened again, \<^verbatim>\<open>read(fh, 0, len(B))\<close>
  returns \<open>B\<close>. On the code, \<^verbatim>\<open>release\<close> decodes the name of the file, after it has
  cleared the buffer and before it uploads. The file named \<^verbatim>\<open>b'\xff'\<close>, which is not
  UTF-8, is created and \<^verbatim>\<open>b'a'\<close> is written at offset 0 (the write returns 1):
  \<^verbatim>\<open>release(2)\<close> raises \<^verbatim>\<open>UnicodeDecodeError\<close>, the buffer and the channel are empty
  afterwards, and after reopening \<^verbatim>\<open>read(2, 0, 1)\<close> returns the empty bytes, not
  \<^verbatim>\<open>b'a'\<close>.
\<close>

theorem round_trip_fails_for_undecodable_name:
  "fst (bindM (create ROOT_INODE [CHR 0xFF] 33188 0 ctx0 5)
              (\<lambda>r. write_op (fst r) 0 ''a'') fs0) = Inr 1
   \<and> write_buffer fs_badname = ''a''
   \<and> fst (release 2 fs_badname) = Inl UnicodeDecodeError
   \<and> write_buffer (snd (release 2 fs_badname)) = []
   \<and> channel (snd (release 2 fs_badname)) = []
   \<and> fst (open_op 2 0 (snd (release 2 fs_badname))) = Inr 2
   \<and> fst (read 2 0 1 (snd (open_op 2 0 (snd (release 2 fs_badname))))) = Inr []
   \<and> fst (read 2 0 1 (snd (open_op 2 0 (snd (release 2 fs_badname))))) \<noteq> Inr ''a''"
  by (simp add: fs_badname_def fs0_eval ctx0_def monad_defs db_defs client_defs ops_defs
        Let_def)

subsection \<open>A rename of the root's own entry\<close>


subsection \<open>The flush of release\<close>

lemma release_blocks:
  "release fh =
     thenM (modify (\<lambda>s. s\<lparr>inode_open_count :=
                            (inode_open_count s)
                              (fh \<mapsto> (case inode_open_count s fh of None \<Rightarrow> 0 | Some c \<Rightarrow> c) - 1)\<rparr>))
    (thenM (bindM (gets write_buffer) (\<lambda>data. whenM (length data > 0) (flush_buffer fh data)))
           (drop_if_unlinked fh))"
  by (simp add: release_def flush_buffer_def drop_if_unlinked_def)

lemma chunk_messages_ids:
  "map msg_id (chunk_messages nm i n cs) = [n ..< n + length cs]"
proof (induction cs arbitrary: i n)
  case Nil
  show ?case by simp
next
  case (Cons c cs)
  have "[n ..< n + length (c # cs)] = n # [Suc n ..< Suc n + length cs]"
    by (simp add: upt_conv_Cons del: upt_Suc)
  then show ?case
    by (simp add: Cons.IH del: upt_Suc)
qed

lemma chunk_messages_media: "map msg_media (chunk_messages nm i n cs) = cs"
  by (induction cs arbitrary: i n) simp_all

lemma chunk_messages_length: "length (chunk_messages nm i n cs) = length cs"
  by (induction cs arbitrary: i n) simp_all

lemma send_chunks_run:
  "send_chunks nm i cs s =
     (Inr (chunk_messages nm i (next_msg_id s) cs),
      s\<lparr>channel := channel s @ chunk_messages nm i (next_msg_id s) cs,
        next_msg_id := next_msg_id s + length cs,
        effects := effects s @ map Send_file (chunk_messages nm i (next_msg_id s) cs)\<rparr>)"
proof (induction cs arbitrary: i s)
  case Nil
  show ?case by (simp add: returnM_def)
next
  case (Cons c cs)
  show ?case
    by (simp add: Cons.IH bindM_def returnM_def send_file_def Let_def)
qed

lemma insert_messages_run:
  assumes "distinct (map msg_id msgs)"
      and "\<forall>m \<in> set msgs. msg_id m \<notin> set (map m_id (telegram_messages (db s)))"
  shows "for_each msgs (\<lambda>msg. cursor_execute (INSERT_telegram_messages (msg_id msg) fh)) s =
           (Inr (),
            s\<lparr>db := (db s)\<lparr>telegram_messages :=
                          telegram_messages (db s)
                            @ map (\<lambda>m. \<lparr>m_id = msg_id m, m_inode = fh\<rparr>) msgs\<rparr>,
              lastrowid := (if msgs = [] then lastrowid s else msg_id (last msgs)),
              effects := effects s
                           @ map (\<lambda>m. Execute (INSERT_telegram_messages (msg_id m) fh)) msgs\<rparr>)"
  using assms
proof (induction msgs arbitrary: s)
  case Nil
  show ?case by (simp add: returnM_def)
next
  case (Cons m msgs)
  let ?s1 = "s\<lparr>db := (db s)\<lparr>telegram_messages :=
                          telegram_messages (db s) @ [\<lparr>m_id = msg_id m, m_inode = fh\<rparr>]\<rparr>,
               lastrowid := msg_id m,
               effects := effects s @ [Execute (INSERT_telegram_messages (msg_id m) fh)]\<rparr>"
  have 1: "cursor_execute (INSERT_telegram_messages (msg_id m) fh) s = (Inr (), ?s1)"
    using Cons.prems(2) by (simp add: cursor_execute_def)
  have 2: "for_each msgs (\<lambda>msg. cursor_execute (INSERT_telegram_messages (msg_id msg) fh)) ?s1 =
             (Inr (),
              ?s1\<lparr>db := (db ?s1)\<lparr>telegram_messages :=
                          telegram_messages (db ?s1)
                            @ map (\<lambda>m. \<lparr>m_id = msg_id m, m_inode = fh\<rparr>) msgs\<rparr>,
                 lastrowid := (if msgs = [] then lastrowid ?s1 else msg_id (last msgs)),
                 effects := effects ?s1
                           @ map (\<lambda>m. Execute (INSERT_telegram_messages (msg_id m) fh)) msgs\<rparr>)"
    using Cons.prems by (intro Cons.IH) (auto simp: image_iff)
  show ?case
    by (simp add: thenM_def bindM_def 1 2)
qed


lemma upload_file_run:
  assumes "encryption_key s = None \<and> payload = data
           \<or> (\<exists>f. encryption_key s = Some f \<and> encrypt f data = Some payload)"
  shows "\<exists>s'. upload_file data fh nm s =
                 (Inr (chunk_messages nm 0 (next_msg_id s) (make_chunks FILE_MAX_SIZE_BYTES payload)), s')
          \<and> channel s' = channel s
                @ chunk_messages nm 0 (next_msg_id s) (make_chunks FILE_MAX_SIZE_BYTES payload)
          \<and> next_msg_id s' = next_msg_id s + length (make_chunks FILE_MAX_SIZE_BYTES payload)
          \<and> effects s' = effects s
                @ map Send_file
                    (chunk_messages nm 0 (next_msg_id s) (make_chunks FILE_MAX_SIZE_BYTES payload))
          \<and> fh \<notin> set (map fst (cached_files s'))
          \<and> db s' = db s \<and> write_buffer s' = write_buffer s
          \<and> inode_open_count s' = inode_open_count s \<and> encryption_key s' = encryption_key s
          \<and> cache_maxsize s' = cache_maxsize s \<and> lastrowid s' = lastrowid s"
  using assms
  by (cases s)
     (auto simp: upload_file_def monad_defs cache_pop_def unshare_def send_chunks_run
           split: option.splits)

lemma i_id_set_inode_col: "i_id (set_inode_col col v r) = i_id r"
  by (cases col) (simp_all add: set_inode_col_def)

lemma select_inodes_after_update:
  "filter (\<lambda>r. i_id r = fh) (map (\<lambda>r. if i_id r = k then set_inode_col col v r else r) rows) =
     map (\<lambda>r. if i_id r = k then set_inode_col col v r else r) (filter (\<lambda>r. i_id r = fh) rows)"
  by (induction rows) (simp_all add: i_id_set_inode_col)

lemma flush_buffer_run:
  assumes c: "select_contents_inode fh (db s) = [crow]"
      and u: "utf8_valid (map of_char (c_name crow))"
      and k: "encryption_key s = None \<and> payload = data
              \<or> (\<exists>f. encryption_key s = Some f \<and> encrypt f data = Some payload)"
      and fresh: "\<forall>r \<in> set (telegram_messages (db s)). m_id r < next_msg_id s"
      and msgs: "msgs = chunk_messages (c_name crow) 0 (next_msg_id s)
                          (make_chunks FILE_MAX_SIZE_BYTES payload)"
  shows "\<exists>s'. flush_buffer fh data s = (Inr (), s')
          \<and> write_buffer s' = []
          \<and> effects s' = effects s @ map Send_file msgs
                @ [Delete_messages (map m_id (select_messages fh (db s))),
                   Execute (DELETE_telegram_messages fh)]
                @ map (\<lambda>m. Execute (INSERT_telegram_messages (msg_id m) fh)) msgs
                @ [Execute (UPDATE_inodes Col_size (length data) fh), Commit]
          \<and> telegram_messages (db s') =
                filter (\<lambda>r. m_inode r \<noteq> fh) (telegram_messages (db s))
                  @ map (\<lambda>m. \<lparr>m_id = msg_id m, m_inode = fh\<rparr>) msgs
          \<and> inodes (db s') =
                map (\<lambda>r. if i_id r = fh then set_inode_col Col_size (length data) r else r)
                    (inodes (db s))
          \<and> contents (db s') = contents (db s)
          \<and> channel s' =
                filter (\<lambda>m. msg_id m \<notin> set (map m_id (select_messages fh (db s))))
                       (channel s @ msgs)
          \<and> next_msg_id s' = next_msg_id s + length msgs
          \<and> fh \<notin> set (map fst (cached_files s'))
          \<and> inode_open_count s' = inode_open_count s
          \<and> encryption_key s' = encryption_key s
          \<and> cache_maxsize s' = cache_maxsize s"
proof -
  define s1 where "s1 = s\<lparr>write_buffer := [], write_buffer_cached := None\<rparr>"
  have m1: "modify (\<lambda>s. s\<lparr>write_buffer := [], write_buffer_cached := None\<rparr>) s = (Inr (), s1)"
    by (simp add: modify_def s1_def)
  have gr: "get_row (select_contents_inode fh) s1 = (Inr crow, s1)"
    using c by (simp add: get_row_def s1_def)
  have dc: "decode (c_name crow) s1 = (Inr (c_name crow), s1)"
    using u by (simp add: decode_def returnM_def)
  have k1: "encryption_key s1 = None \<and> payload = data
            \<or> (\<exists>f. encryption_key s1 = Some f \<and> encrypt f data = Some payload)"
    using k by (simp add: s1_def)
  from upload_file_run [OF k1, of fh "c_name crow"] obtain s2 where
    up: "upload_file data fh (c_name crow) s1 = (Inr msgs, s2)"
    and s2: "channel s2 = channel s @ msgs" "next_msg_id s2 = next_msg_id s + length msgs"
      "effects s2 = effects s @ map Send_file msgs" "fh \<notin> set (map fst (cached_files s2))"
      "db s2 = db s" "write_buffer s2 = []" "inode_open_count s2 = inode_open_count s"
      "encryption_key s2 = encryption_key s" "cache_maxsize s2 = cache_maxsize s"
    unfolding msgs by (auto simp: s1_def chunk_messages_length)
  define old where "old = map m_id (select_messages fh (db s))"
  define s3 where
    "s3 = s2\<lparr>channel := filter (\<lambda>m. msg_id m \<notin> set old) (channel s2),
             effects := effects s2 @ [Delete_messages old]\<rparr>"
  have del: "delete_msgs_for_inode fh s2 = (Inr (), s3)"
    by (simp add: delete_msgs_for_inode_def monad_defs delete_messages_def s3_def old_def s2)
  define s4 where
    "s4 = s3\<lparr>db := (db s3)\<lparr>telegram_messages :=
                        filter (\<lambda>r. m_inode r \<noteq> fh) (telegram_messages (db s3))\<rparr>,
             effects := effects s3 @ [Execute (DELETE_telegram_messages fh)]\<rparr>"
  have ex1: "cursor_execute (DELETE_telegram_messages fh) s3 = (Inr (), s4)"
    by (simp add: cursor_execute_def s4_def)
  have ids: "map msg_id msgs = [next_msg_id s ..< next_msg_id s + length msgs]"
    unfolding msgs by (simp add: chunk_messages_ids chunk_messages_length)
  have dist: "distinct (map msg_id msgs)"
    by (simp add: ids)
  have new: "\<forall>m \<in> set msgs. msg_id m \<notin> set (map m_id (telegram_messages (db s4)))"
  proof
    fix m assume "m \<in> set msgs"
    then have "msg_id m \<in> set (map msg_id msgs)"
      by simp
    then have "next_msg_id s \<le> msg_id m"
      unfolding ids by simp
    then show "msg_id m \<notin> set (map m_id (telegram_messages (db s4)))"
      using fresh by (auto simp: s4_def s3_def s2)
  qed
  define s5 where
    "s5 = s4\<lparr>db := (db s4)\<lparr>telegram_messages :=
                        telegram_messages (db s4)
                          @ map (\<lambda>m. \<lparr>m_id = msg_id m, m_inode = fh\<rparr>) msgs\<rparr>,
             lastrowid := (if msgs = [] then lastrowid s4 else msg_id (last msgs)),
             effects := effects s4
                          @ map (\<lambda>m. Execute (INSERT_telegram_messages (msg_id m) fh)) msgs\<rparr>"
  have ins: "for_each msgs (\<lambda>msg. cursor_execute (INSERT_telegram_messages (msg_id msg) fh)) s4 =
               (Inr (), s5)"
    unfolding s5_def using dist new by (rule insert_messages_run)
  define s6 where
    "s6 = s5\<lparr>db := (db s5)\<lparr>inodes :=
                        map (\<lambda>r. if i_id r = fh then set_inode_col Col_size (length data) r else r)
                            (inodes (db s5))\<rparr>,
             effects := effects s5 @ [Execute (UPDATE_inodes Col_size (length data) fh)]\<rparr>"
  have ex2: "cursor_execute (UPDATE_inodes Col_size (length data) fh) s5 = (Inr (), s6)"
    by (simp add: cursor_execute_def s6_def)
  define s7 where "s7 = s6\<lparr>effects := effects s6 @ [Commit]\<rparr>"
  have cm: "commit s6 = (Inr (), s7)"
    by (simp add: commit_def modify_def s7_def)
  have run: "flush_buffer fh data s = (Inr (), s7)"
    by (simp add: flush_buffer_def thenM_def bindM_def m1 gr dc up del ex1 ins ex2 cm)
  have "write_buffer s7 = []"
    and "effects s7 = effects s @ map Send_file msgs
                @ [Delete_messages (map m_id (select_messages fh (db s))),
                   Execute (DELETE_telegram_messages fh)]
                @ map (\<lambda>m. Execute (INSERT_telegram_messages (msg_id m) fh)) msgs
                @ [Execute (UPDATE_inodes Col_size (length data) fh), Commit]"
    and "telegram_messages (db s7) =
                filter (\<lambda>r. m_inode r \<noteq> fh) (telegram_messages (db s))
                  @ map (\<lambda>m. \<lparr>m_id = msg_id m, m_inode = fh\<rparr>) msgs"
    and "inodes (db s7) =
                map (\<lambda>r. if i_id r = fh then set_inode_col Col_size (length data) r else r)
                    (inodes (db s))"
    and "contents (db s7) = contents (db s)"
    and "channel s7 =
                filter (\<lambda>m. msg_id m \<notin> set (map m_id (select_messages fh (db s))))
                       (channel s @ msgs)"
    and "next_msg_id s7 = next_msg_id s + length msgs"
    and "fh \<notin> set (map fst (cached_files s7))"
    and "inode_open_count s7 = inode_open_count s"
    and "encryption_key s7 = encryption_key s"
    and "cache_maxsize s7 = cache_maxsize s"
    using s2(4) by (simp_all add: s7_def s6_def s5_def s4_def s3_def s2 old_def)
  with run show ?thesis
    by blast
qed

lemma drop_if_unlinked_linked:
  assumes "select_inodes fh (db s) = [irow]"
      and "select_contents_inode fh (db s) = [crow]"
  shows "\<exists>oc. drop_if_unlinked fh s = (Inr (), s\<lparr>inode_open_count := oc\<rparr>)"
proof (cases "inode_open_count s fh = Some 0")
  case False
  then have "drop_if_unlinked fh s = (Inr (), s\<lparr>inode_open_count := inode_open_count s\<rparr>)"
    by (simp add: drop_if_unlinked_def monad_defs)
  then show ?thesis by blast
next
  case True
  then have "drop_if_unlinked fh s =
               (Inr (), s\<lparr>inode_open_count := (inode_open_count s)(fh := None)\<rparr>)"
    using assms
    by (simp add: drop_if_unlinked_def getattr_def no_row_is_ENOENT_def monad_defs get_row_def
          count_contents_inode_def select_inodes_def select_contents_inode_def)
  then show ?thesis by blast
qed

text \<open>
  Where the name of the file can be read: for a file that has an inode row and exactly
  one directory entry, with a name that is UTF-8, a key (if any) that encrypts the data,
  and a message table whose ids are older than the channel's next id, \<^verbatim>\<open>release\<close> with
  a non-empty write buffer returns, the buffer is empty afterwards, and the effects on
  the channel and the database are, in this order: the uploads of the chunks of the
  payload, the deletion of the old remote messages of the handle, the deletion of its
  old mapping rows, the insertion of the new message ids in the order they were
  produced, the update of the size to the length of the buffer, and the commit.
\<close>

theorem release_flush_order:
  assumes "write_buffer s = data" and "data \<noteq> []"
      and "select_inodes fh (db s) = [irow]"
      and "select_contents_inode fh (db s) = [crow]"
      and "utf8_valid (map of_char (c_name crow))"
      and "encryption_key s = None \<and> payload = data
           \<or> (\<exists>f. encryption_key s = Some f \<and> encrypt f data = Some payload)"
      and "\<forall>r \<in> set (telegram_messages (db s)). m_id r < next_msg_id s"
      and "msgs = chunk_messages (c_name crow) 0 (next_msg_id s)
                    (make_chunks FILE_MAX_SIZE_BYTES payload)"
  shows "fst (release fh s) = Inr ()
         \<and> write_buffer (snd (release fh s)) = []
         \<and> effects (snd (release fh s)) =
             effects s @ map Send_file msgs
               @ [Delete_messages (map m_id (select_messages fh (db s))),
                  Execute (DELETE_telegram_messages fh)]
               @ map (\<lambda>m. Execute (INSERT_telegram_messages (msg_id m) fh)) msgs
               @ [Execute (UPDATE_inodes Col_size (length data) fh), Commit]"
proof -
  define s0 where
    "s0 = s\<lparr>inode_open_count :=
              (inode_open_count s)
                (fh \<mapsto> (case inode_open_count s fh of None \<Rightarrow> 0 | Some c \<Rightarrow> c) - 1)\<rparr>"
  have pre: "select_contents_inode fh (db s0) = [crow]"
    "encryption_key s0 = None \<and> payload = data
       \<or> (\<exists>f. encryption_key s0 = Some f \<and> encrypt f data = Some payload)"
    "\<forall>r \<in> set (telegram_messages (db s0)). m_id r < next_msg_id s0"
    "msgs = chunk_messages (c_name crow) 0 (next_msg_id s0)
              (make_chunks FILE_MAX_SIZE_BYTES payload)"
    using assms(4,6,7,8) by (simp_all add: s0_def)
  from flush_buffer_run [OF pre(1) assms(5) pre(2) pre(3) pre(4)] obtain s7 where
    fl: "flush_buffer fh data s0 = (Inr (), s7)"
    and s7: "write_buffer s7 = []"
      "effects s7 = effects s0 @ map Send_file msgs
                @ [Delete_messages (map m_id (select_messages fh (db s0))),
                   Execute (DELETE_telegram_messages fh)]
                @ map (\<lambda>m. Execute (INSERT_telegram_messages (msg_id m) fh)) msgs
                @ [Execute (UPDATE_inodes Col_size (length data) fh), Commit]"
      "inodes (db s7) =
                map (\<lambda>r. if i_id r = fh then set_inode_col Col_size (length data) r else r)
                    (inodes (db s0))"
      "contents (db s7) = contents (db s0)"
    by blast
  have i7: "select_inodes fh (db s7) =
              [if i_id irow = fh then set_inode_col Col_size (length data) irow else irow]"
    using assms(3) by (simp add: select_inodes_def s7(3) select_inodes_after_update s0_def)
  have c7: "select_contents_inode fh (db s7) = [crow]"
    using assms(4) by (simp add: select_contents_inode_def s7(4) s0_def)
  from drop_if_unlinked_linked [OF i7 c7] obtain oc where
    tl: "drop_if_unlinked fh s7 = (Inr (), s7\<lparr>inode_open_count := oc\<rparr>)"
    by blast
  have "release fh s = (Inr (), s7\<lparr>inode_open_count := oc\<rparr>)"
    using assms(1,2) fl tl
    by (simp add: release_blocks thenM_def bindM_def modify_def gets_def whenM_def s0_def)
  then show ?thesis
    by (simp add: s7 s0_def)
qed

theorem release_flush_order_witness:
  "write_buffer fs_written = ''hello''
   \<and> map c_name (select_contents_inode 2 (db fs_written)) = [''f'']
   \<and> fst (release 2 fs_written) = Inr ()
   \<and> write_buffer (snd (release 2 fs_written)) = []
   \<and> effects (snd (release 2 fs_written)) =
       effects fs_written
         @ [Send_file \<lparr>msg_id = 1, msg_file_name = ''f_part0.txt'', msg_media = ''hello''\<rparr>,
            Delete_messages [],
            Execute (DELETE_telegram_messages 2),
            Execute (INSERT_telegram_messages 1 2),
            Execute (UPDATE_inodes Col_size 5 2),
            Commit]"
proof -
  have w: "fs_written = fs_created\<lparr>write_buffer := ''hello''\<rparr>"
    by (simp add: fs_written_def fs_created_eval monad_defs db_defs client_defs ops_defs)
  have h1: "write_buffer fs_written = ''hello''"
    by (simp add: w)
  have h2: "''hello'' \<noteq> []"
    by simp
  have h3: "select_inodes 2 (db fs_written) =
              [\<lparr>i_id = 2, i_uid = 1000, i_gid = 1000, i_mode = 33188, i_mtime_ns = 5,
                i_atime_ns = 5, i_ctime_ns = 5, i_target = None, i_size = 0, i_rdev = 0\<rparr>]"
    by (simp add: w fs_created_eval select_inodes_def)
  have h4: "select_contents_inode 2 (db fs_written) =
              [\<lparr>c_rowid = 2, c_name = ''f'', c_inode = 2, c_parent_inode = 1\<rparr>]"
    by (simp add: w fs_created_eval select_contents_inode_def)
  have h5: "utf8_valid (map of_char
              (c_name \<lparr>c_rowid = 2, c_name = ''f'', c_inode = 2, c_parent_inode = 1\<rparr>))"
    by simp
  have h6: "encryption_key fs_written = None \<and> ''hello'' = ''hello''
            \<or> (\<exists>f. encryption_key fs_written = Some f \<and> encrypt f ''hello'' = Some ''hello'')"
    by (simp add: w fs_created_eval)
  have h7: "\<forall>r \<in> set (telegram_messages (db fs_written)). m_id r < next_msg_id fs_written"
    by (simp add: w fs_created_eval)
  have h8: "[\<lparr>msg_id = 1, msg_file_name = ''f_part0.txt'', msg_media = ''hello''\<rparr>] =
            chunk_messages (c_name \<lparr>c_rowid = 2, c_name = ''f'', c_inode = 2, c_parent_inode = 1\<rparr>)
              0 (next_msg_id fs_written) (make_chunks FILE_MAX_SIZE_BYTES ''hello'')"
    by (simp add: w fs_created_eval make_chunks_def FILE_MAX_SIZE_BYTES_def)
  from release_flush_order [OF h1 h2 h3 h4 h5 h6 h7 h8] h1 h4 show ?thesis
    by (simp add: w fs_created_eval select_messages_def)
qed

subsection \<open>The round trip\<close>

lemma fold_max_ge: "a \<le> fold max xs (a::nat)"
  by (induction xs arbitrary: a) (auto intro: order_trans [OF max.cobounded2])

lemma max_list_ge: "x \<in> set xs \<Longrightarrow> x \<le> max_list xs"
proof -
  have "x \<in> set xs \<Longrightarrow> x \<le> fold max xs a" for a
  proof (induction xs arbitrary: a)
    case Nil
    then show ?case by simp
  next
    case (Cons y ys)
    show ?case
    proof (cases "x = y")
      case True
      have "max y a \<le> fold max ys (max y a)"
        by (rule fold_max_ge)
      with True show ?thesis by simp
    next
      case False
      with Cons show ?thesis by simp
    qed
  qed
  then show "x \<in> set xs \<Longrightarrow> x \<le> max_list xs"
    by (simp add: max_list_def)
qed

lemma no_inode_above_max:
  "filter (\<lambda>r. i_id r = Suc (max_list (map i_id rows))) rows = []"
proof -
  have "i_id r \<noteq> Suc (max_list (map i_id rows))" if "r \<in> set rows" for r
    using max_list_ge [of "i_id r" "map i_id rows"] that by auto
  then show ?thesis
    by (simp add: filter_empty_conv)
qed

lemma create_success:
  assumes "create inode_p nm md flags ctx now_ns s0 = (Inr (fh, entry), s1)"
  shows "fh = Suc (max_list (map i_id (inodes (db s0))))"
    and "inodes (db s1) = inodes (db s0) @
           [\<lparr>i_id = fh, i_uid = ctx_uid ctx, i_gid = ctx_gid ctx, i_mode = md,
             i_mtime_ns = now_ns, i_atime_ns = now_ns, i_ctime_ns = now_ns, i_target = None,
             i_size = 0, i_rdev = 0\<rparr>]"
    and "\<exists>rid. contents (db s1) = contents (db s0) @
           [\<lparr>c_rowid = rid, c_name = nm, c_inode = fh, c_parent_inode = inode_p\<rparr>]"
    and "telegram_messages (db s1) = telegram_messages (db s0)"
    and "channel s1 = channel s0" and "next_msg_id s1 = next_msg_id s0"
    and "encryption_key s1 = encryption_key s0" and "cached_files s1 = cached_files s0"
    and "cache_maxsize s1 = cache_maxsize s0" and "write_buffer s1 = write_buffer s0"
  using assms
  by (auto simp: create_def create'_def getattr_def no_row_is_ENOENT_def incr_open_count_def
        monad_defs cursor_execute_def db_execute_def commit_def get_row_def Let_def
      split: if_splits sum.splits prod.splits list.splits)

lemma cache_miss:
  "fh \<notin> set (map fst (cached_files s)) \<Longrightarrow> cache_nonempty fh s = (Inr None, s)"
proof -
  assume "fh \<notin> set (map fst (cached_files s))"
  then have "map_of (cached_files s) fh = None"
    by (simp add: map_of_eq_None_iff)
  then show ?thesis
    by (simp add: cache_nonempty_def monad_defs)
qed

lemma find_append_fresh:
  "\<forall>x \<in> set xs. \<not> P x \<Longrightarrow> find P (xs @ ys) = find P ys"
  by (induction xs) auto

lemma find_distinct_key:
  "distinct (map msg_id msgs) \<Longrightarrow> m \<in> set msgs
     \<Longrightarrow> find (\<lambda>x. msg_id x = msg_id m) msgs = Some m"
  by (induction msgs) (auto simp: image_iff)

lemma get_messages_uploaded:
  assumes "distinct (map msg_id msgs)"
      and "\<forall>x \<in> set old. msg_id x \<notin> set (map msg_id msgs)"
  shows "map (\<lambda>i. find (\<lambda>m. msg_id m = i) (old @ msgs)) (map msg_id msgs) = map Some msgs"
proof -
  have "find (\<lambda>x. msg_id x = msg_id m) (old @ msgs) = Some m" if "m \<in> set msgs" for m
  proof -
    have "\<forall>x \<in> set old. \<not> msg_id x = msg_id m"
      using assms(2) that by (auto simp: image_iff)
    then have "find (\<lambda>x. msg_id x = msg_id m) (old @ msgs) = find (\<lambda>x. msg_id x = msg_id m) msgs"
      by (rule find_append_fresh)
    with assms(1) that show ?thesis
      by (simp add: find_distinct_key)
  qed
  then show ?thesis
    by (simp add: comp_def)
qed

lemma make_chunks_nonempty: "0 < m \<Longrightarrow> make_chunks m xs \<noteq> []"
proof -
  assume m: "0 < m"
  have "(length xs + m) div m = Suc (length xs div m)"
    using m by (simp add: div_add_self2)
  then show ?thesis
    by (simp add: make_chunks_def Let_def)
qed

lemma read_after_flush:
  assumes "select_inodes fh (db s) = [irow]"
      and "fh \<notin> set (map fst (cached_files s))"
      and "select_messages fh (db s) = map (\<lambda>m. \<lparr>m_id = msg_id m, m_inode = fh\<rparr>) msgs"
      and "msgs \<noteq> []"
      and "map (\<lambda>i. find (\<lambda>m. msg_id m = i) (channel s)) (map msg_id msgs) = map Some msgs"
      and "encryption_key s = None \<and> plain = concat (map msg_media msgs)
           \<or> (\<exists>f. encryption_key s = Some f
                   \<and> decrypt f (concat (map msg_media msgs)) = Some plain)"
      and "length plain \<le> cache_maxsize s"
  shows "fst (read fh off len s) = Inr (take len (drop off plain))"
proof -
  have cm: "cache_nonempty fh s = (Inr None, s)"
    using assms(2) by (rule cache_miss)
  obtain mrow mrows where rows: "select_messages fh (db s) = mrow # mrows"
    using assms(3,4) by (cases msgs) auto
  have ids: "map m_id (mrow # mrows) = map msg_id msgs"
    using assms(3) rows by (simp add: comp_def)
  have gm: "get_messages (map m_id (mrow # mrows)) s = (Inr (map Some msgs), s)"
    unfolding ids using assms(5) by (simp add: get_messages_def gets_def)
  have da: "download_all (map Some msgs) s = (Inr (concat (map msg_media msgs)), s)"
    by (rule download_all_Some)
  obtain s' where cs: "cache_store fh plain s = (Inr (), s')"
    using assms(7) by (simp add: cache_store_def cache_setitem_def Let_def)
  have dl: "download_file fh (map m_id (mrow # mrows)) s = (Inr plain, s')"
    using assms(6) cs
    by (auto simp: download_file_def monad_defs cm gm da simp del: list.map)
  have "get_telegram_data fh s = (Inr (plain, True), s')"
    using rows dl
    by (simp add: get_telegram_data_def get_cached_file_def try_except_def get_rows_def
          bindM_def returnM_def cm del: list.map)
  then show ?thesis
    using assms(1) by (simp add: read_def bindM_def get_row_def returnM_def)
qed

lemma release_without_flush:
  assumes "write_buffer s = []"
      and "select_inodes fh (db s) = [irow]"
      and "select_contents_inode fh (db s) = [crow]"
  shows "\<exists>oc. release fh s = (Inr (), s\<lparr>inode_open_count := oc\<rparr>)"
proof -
  define s0 where
    "s0 = s\<lparr>inode_open_count :=
              (inode_open_count s)
                (fh \<mapsto> (case inode_open_count s fh of None \<Rightarrow> 0 | Some c \<Rightarrow> c) - 1)\<rparr>"
  have "select_inodes fh (db s0) = [irow]" and "select_contents_inode fh (db s0) = [crow]"
    using assms(2,3) by (simp_all add: s0_def)
  from drop_if_unlinked_linked [OF this] obtain oc where
    tl: "drop_if_unlinked fh s0 = (Inr (), s0\<lparr>inode_open_count := oc\<rparr>)"
    by blast
  have "release fh s = (Inr (), s0\<lparr>inode_open_count := oc\<rparr>)"
    using assms(1) tl
    by (simp add: release_blocks thenM_def bindM_def modify_def gets_def whenM_def returnM_def
          s0_def)
  then have "release fh s = (Inr (), s\<lparr>inode_open_count := oc\<rparr>)"
    by (simp add: s0_def)
  then show ?thesis by blast
qed

lemma release_with_flush:
  assumes "write_buffer s = data" and "data \<noteq> []"
      and "select_inodes fh (db s) = [irow]"
      and "select_contents_inode fh (db s) = [crow]"
      and "utf8_valid (map of_char (c_name crow))"
      and "encryption_key s = None \<and> payload = data
           \<or> (\<exists>f. encryption_key s = Some f \<and> encrypt f data = Some payload)"
      and "\<forall>r \<in> set (telegram_messages (db s)). m_id r < next_msg_id s"
      and "msgs = chunk_messages (c_name crow) 0 (next_msg_id s)
                    (make_chunks FILE_MAX_SIZE_BYTES payload)"
  shows "\<exists>s'. release fh s = (Inr (), s')
          \<and> telegram_messages (db s') =
                filter (\<lambda>r. m_inode r \<noteq> fh) (telegram_messages (db s))
                  @ map (\<lambda>m. \<lparr>m_id = msg_id m, m_inode = fh\<rparr>) msgs
          \<and> inodes (db s') =
                map (\<lambda>r. if i_id r = fh then set_inode_col Col_size (length data) r else r)
                    (inodes (db s))
          \<and> channel s' =
                filter (\<lambda>m. msg_id m \<notin> set (map m_id (select_messages fh (db s))))
                       (channel s @ msgs)
          \<and> fh \<notin> set (map fst (cached_files s'))
          \<and> encryption_key s' = encryption_key s
          \<and> cache_maxsize s' = cache_maxsize s"
proof -
  define s0 where
    "s0 = s\<lparr>inode_open_count :=
              (inode_open_count s)
                (fh \<mapsto> (case inode_open_count s fh of None \<Rightarrow> 0 | Some c \<Rightarrow> c) - 1)\<rparr>"
  have pre: "select_contents_inode fh (db s0) = [crow]"
    "encryption_key s0 = None \<and> payload = data
       \<or> (\<exists>f. encryption_key s0 = Some f \<and> encrypt f data = Some payload)"
    "\<forall>r \<in> set (telegram_messages (db s0)). m_id r < next_msg_id s0"
    "msgs = chunk_messages (c_name crow) 0 (next_msg_id s0)
              (make_chunks FILE_MAX_SIZE_BYTES payload)"
    using assms(4,6,7,8) by (simp_all add: s0_def)
  from flush_buffer_run [OF pre(1) assms(5) pre(2) pre(3) pre(4)] obtain s7 where
    fl: "flush_buffer fh data s0 = (Inr (), s7)"
    and s7: "telegram_messages (db s7) =
                filter (\<lambda>r. m_inode r \<noteq> fh) (telegram_messages (db s0))
                  @ map (\<lambda>m. \<lparr>m_id = msg_id m, m_inode = fh\<rparr>) msgs"
      "inodes (db s7) =
                map (\<lambda>r. if i_id r = fh then set_inode_col Col_size (length data) r else r)
                    (inodes (db s0))"
      "contents (db s7) = contents (db s0)"
      "channel s7 =
                filter (\<lambda>m. msg_id m \<notin> set (map m_id (select_messages fh (db s0))))
                       (channel s0 @ msgs)"
      "fh \<notin> set (map fst (cached_files s7))"
      "encryption_key s7 = encryption_key s0"
      "cache_maxsize s7 = cache_maxsize s0"
    by blast
  have i7: "select_inodes fh (db s7) =
              [if i_id irow = fh then set_inode_col Col_size (length data) irow else irow]"
    using assms(3) by (simp add: select_inodes_def s7(2) select_inodes_after_update s0_def)
  have c7: "select_contents_inode fh (db s7) = [crow]"
    using assms(4) by (simp add: select_contents_inode_def s7(3) s0_def)
  from drop_if_unlinked_linked [OF i7 c7] obtain oc where
    tl: "drop_if_unlinked fh s7 = (Inr (), s7\<lparr>inode_open_count := oc\<rparr>)"
    by blast
  have "release fh s = (Inr (), s7\<lparr>inode_open_count := oc\<rparr>)"
    using assms(1,2) fl tl
    by (simp add: release_blocks thenM_def bindM_def modify_def gets_def whenM_def s0_def)
  moreover have "fh \<notin> set (map fst (cached_files (s7\<lparr>inode_open_count := oc\<rparr>)))"
    using s7(5) by simp
  ultimately show ?thesis
    using s7 by (simp add: s0_def)
qed

lemma write_to_fresh_file:
  assumes "write_buffer s = []"
      and "select_inodes fh (db s) = [irow]"
      and "fh \<notin> set (map fst (cached_files s))"
      and "select_messages fh (db s) = []"
  shows "write_op fh 0 buf s =
           (Inr (length buf), s\<lparr>write_buffer := buf, write_buffer_cached := None\<rparr>)"
proof -
  have cm: "cache_nonempty fh s = (Inr None, s)"
    using assms(3) by (rule cache_miss)
  have "get_telegram_data fh s = (Inr ([], False), s)"
    using assms(4)
    by (simp add: get_telegram_data_def get_cached_file_def try_except_def get_rows_def
          bindM_def returnM_def cm)
  then show ?thesis
    using assms(1,2)
    by (simp add: write_op_def monad_defs get_row_def extend_write_buffer_def)
qed

lemma select_messages_after_flush:
  assumes "msgs = chunk_messages nm 0 n cs"
      and "telegram_messages d =
             filter (\<lambda>r. m_inode r \<noteq> fh) old @ map (\<lambda>m. \<lparr>m_id = msg_id m, m_inode = fh\<rparr>) msgs"
  shows "select_messages fh d = map (\<lambda>m. \<lparr>m_id = msg_id m, m_inode = fh\<rparr>) msgs"
proof -
  let ?rows = "map (\<lambda>m. \<lparr>m_id = msg_id m, m_inode = fh\<rparr>) msgs"
  have "filter (\<lambda>r. m_inode r = fh) (filter (\<lambda>r. m_inode r \<noteq> fh) old) = []"
    by (simp add: filter_empty_conv)
  moreover have "filter (\<lambda>r. m_inode r = fh) ?rows = ?rows"
    by (simp add: filter_map comp_def)
  ultimately have f: "filter (\<lambda>r. m_inode r = fh) (telegram_messages d) = ?rows"
    by (simp add: assms(2))
  have "map m_id ?rows = map msg_id msgs"
    by (simp add: comp_def)
  then have "sorted (map m_id ?rows)"
    by (simp add: assms(1) chunk_messages_ids)
  then have "sort_key m_id ?rows = ?rows"
    by (rule sort_key_id_if_sorted)
  with f show ?thesis
    by (simp add: select_messages_def)
qed

lemma open_op_run:
  "open_op ino flags s =
     (Inr ino, s\<lparr>inode_open_count :=
                   (inode_open_count s)
                     (ino \<mapsto> (case inode_open_count s ino of None \<Rightarrow> 0 | Some c \<Rightarrow> c) + 1)\<rparr>)"
  by (simp add: open_op_def incr_open_count_def thenM_def bindM_def modify_def returnM_def)

lemma read_run:
  "fst (read fh off len s) = Inr v \<Longrightarrow> \<exists>s'. read fh off len s = (Inr v, s')"
  by (cases "read fh off len s") simp

lemma read_nothing:
  assumes "select_inodes fh (db s) = [irow]"
  shows "fst (read fh off 0 s) = Inr []"
proof -
  obtain d sh where "fst (get_telegram_data fh s) = Inr (d, sh)"
    using get_telegram_data_ok by blast
  then obtain s' where "get_telegram_data fh s = (Inr (d, sh), s')"
    by (cases "get_telegram_data fh s") simp
  then show ?thesis
    using assms by (simp add: read_def bindM_def get_row_def returnM_def)
qed

text \<open>
  Where the name of the file is UTF-8 the round trip holds, with and without a key. A
  file is created by \<^verbatim>\<open>create\<close> in a state with an empty write buffer, with nothing
  recorded or cached under its new inode number and with the ids of the message table
  and of the channel older than the channel's next id. Then for every byte sequence \<open>B\<close>
  that fits the cache, and that the key (if one is configured) encrypts to a token that
  it decrypts to \<open>B\<close> again: \<^verbatim>\<open>write(fh, 0, B)\<close> returns \<open>len(B)\<close>, \<^verbatim>\<open>release(fh)\<close>
  succeeds, \<^verbatim>\<open>open\<close> succeeds and \<^verbatim>\<open>read(fh, 0, len(B))\<close> returns exactly \<open>B\<close>.
\<close>

theorem write_release_read_round_trip:
  assumes cr: "create inode_p nm md flags ctx now_ns s0 = (Inr (fh, entry), s1)"
      and u: "utf8_valid (map of_char nm)"
      and wb: "write_buffer s0 = []"
      and nc: "fh \<notin> set (map fst (cached_files s0))"
      and nm: "select_messages fh (db s0) = []"
      and nn: "select_contents_inode fh (db s0) = []"
      and ids: "\<forall>r \<in> set (telegram_messages (db s0)). m_id r < next_msg_id s0"
      and chan: "\<forall>m \<in> set (channel s0). msg_id m < next_msg_id s0"
      and key: "\<forall>f. encryption_key s0 = Some f
                  \<longrightarrow> (\<exists>token. encrypt f B = Some token \<and> decrypt f token = Some B)"
      and fits: "length B \<le> cache_maxsize s0"
  shows "\<exists>s2 s3 s4 s5.
           write_op fh 0 B s1 = (Inr (length B), s2)
         \<and> release fh s2 = (Inr (), s3)
         \<and> open_op fh flags' s3 = (Inr fh, s4)
         \<and> read fh 0 (length B) s4 = (Inr B, s5)"
proof -
  note c = create_success [OF cr]
  define irow where
    "irow = \<lparr>i_id = fh, i_uid = ctx_uid ctx, i_gid = ctx_gid ctx, i_mode = md,
             i_mtime_ns = now_ns, i_atime_ns = now_ns, i_ctime_ns = now_ns, i_target = None,
             i_size = 0, i_rdev = 0\<rparr>"
  obtain rid where crow:
    "contents (db s1) = contents (db s0) @
       [\<lparr>c_rowid = rid, c_name = nm, c_inode = fh, c_parent_inode = inode_p\<rparr>]"
    using c(3) by blast
  define crow where
    "crow = \<lparr>c_rowid = rid, c_name = nm, c_inode = fh, c_parent_inode = inode_p\<rparr>"
  have i1: "select_inodes fh (db s1) = [irow]"
    using no_inode_above_max [of "inodes (db s0)"]
    by (simp add: select_inodes_def c(2) c(1) [symmetric] irow_def)
  have c1: "select_contents_inode fh (db s1) = [crow]"
    using nn by (simp add: select_contents_inode_def crow crow_def)
  have m1: "select_messages fh (db s1) = []"
    using nm by (simp add: select_messages_def c(4))
  have k1: "fh \<notin> set (map fst (cached_files s1))"
    using nc by (simp add: c(8))
  have w1: "write_buffer s1 = []"
    using wb by (simp add: c(10))
  define s2 where "s2 = s1\<lparr>write_buffer := B, write_buffer_cached := None\<rparr>"
  have wr: "write_op fh 0 B s1 = (Inr (length B), s2)"
    unfolding s2_def using w1 i1 k1 m1 by (rule write_to_fresh_file)
  have i2: "select_inodes fh (db s2) = [irow]"
    and c2: "select_contents_inode fh (db s2) = [crow]"
    and w2: "write_buffer s2 = B"
    using i1 c1 by (simp_all add: s2_def)
  show ?thesis
  proof (cases "B = []")
    case True
    with w2 have "write_buffer s2 = []" by simp
    from release_without_flush [OF this i2 c2] obtain oc where
      rl: "release fh s2 = (Inr (), s2\<lparr>inode_open_count := oc\<rparr>)"
      by blast
    define s3 where "s3 = s2\<lparr>inode_open_count := oc\<rparr>"
    define s4 where
      "s4 = s3\<lparr>inode_open_count :=
                 (inode_open_count s3)
                   (fh \<mapsto> (case inode_open_count s3 fh of None \<Rightarrow> 0 | Some c \<Rightarrow> c) + 1)\<rparr>"
    have op: "open_op fh flags' s3 = (Inr fh, s4)"
      unfolding s4_def by (rule open_op_run)
    have "select_inodes fh (db s4) = [irow]"
      using i2 by (simp add: s4_def s3_def)
    then have "fst (read fh 0 0 s4) = Inr []"
      by (rule read_nothing)
    then obtain s5 where "read fh 0 0 s4 = (Inr [], s5)"
      using read_run by blast
    with True wr rl op show ?thesis
      by (simp add: s3_def)
  next
    case False
    obtain payload where pl:
      "encryption_key s0 = None \<and> payload = B
       \<or> (\<exists>f. encryption_key s0 = Some f \<and> encrypt f B = Some payload
               \<and> decrypt f payload = Some B)"
      using key by (cases "encryption_key s0") auto
    define msgs where
      "msgs = chunk_messages (c_name crow) 0 (next_msg_id s2)
                (make_chunks FILE_MAX_SIZE_BYTES payload)"
    have e2: "encryption_key s2 = encryption_key s0"
      and n2: "next_msg_id s2 = next_msg_id s0"
      and t2: "telegram_messages (db s2) = telegram_messages (db s0)"
      and ch2: "channel s2 = channel s0"
      and mx2: "cache_maxsize s2 = cache_maxsize s0"
      by (simp_all add: s2_def c)
    have k2: "encryption_key s2 = None \<and> payload = B
              \<or> (\<exists>f. encryption_key s2 = Some f \<and> encrypt f B = Some payload)"
      using pl by (auto simp: e2)
    have f2: "\<forall>r \<in> set (telegram_messages (db s2)). m_id r < next_msg_id s2"
      using ids by (simp add: t2 n2)
    have u2: "utf8_valid (map of_char (c_name crow))"
      using u by (simp add: crow_def)
    from release_with_flush [OF w2 False i2 c2 u2 k2 f2 msgs_def] obtain s3 where
      rl: "release fh s2 = (Inr (), s3)"
      and t3: "telegram_messages (db s3) =
                 filter (\<lambda>r. m_inode r \<noteq> fh) (telegram_messages (db s2))
                   @ map (\<lambda>m. \<lparr>m_id = msg_id m, m_inode = fh\<rparr>) msgs"
      and i3: "inodes (db s3) =
                 map (\<lambda>r. if i_id r = fh then set_inode_col Col_size (length B) r else r)
                     (inodes (db s2))"
      and ch3: "channel s3 =
                 filter (\<lambda>m. msg_id m \<notin> set (map m_id (select_messages fh (db s2))))
                        (channel s2 @ msgs)"
      and k3: "fh \<notin> set (map fst (cached_files s3))"
      and e3: "encryption_key s3 = encryption_key s2"
      and mx3: "cache_maxsize s3 = cache_maxsize s2"
      by blast
    define s4 where
      "s4 = s3\<lparr>inode_open_count :=
                 (inode_open_count s3)
                   (fh \<mapsto> (case inode_open_count s3 fh of None \<Rightarrow> 0 | Some c \<Rightarrow> c) + 1)\<rparr>"
    have op: "open_op fh flags' s3 = (Inr fh, s4)"
      unfolding s4_def by (rule open_op_run)
    have i4: "select_inodes fh (db s4) =
                [if i_id irow = fh then set_inode_col Col_size (length B) irow else irow]"
      using i2 by (simp add: s4_def select_inodes_def i3 select_inodes_after_update)
    have k4: "fh \<notin> set (map fst (cached_files s4))"
      using k3 by (simp add: s4_def)
    have "select_messages fh (db s3) = map (\<lambda>m. \<lparr>m_id = msg_id m, m_inode = fh\<rparr>) msgs"
      using msgs_def t3 by (rule select_messages_after_flush)
    then have m4: "select_messages fh (db s4) = map (\<lambda>m. \<lparr>m_id = msg_id m, m_inode = fh\<rparr>) msgs"
      by (simp add: s4_def)
    have "make_chunks FILE_MAX_SIZE_BYTES payload \<noteq> []"
      by (rule make_chunks_nonempty) (simp add: FILE_MAX_SIZE_BYTES_def)
    then have ne: "msgs \<noteq> []"
      using chunk_messages_length [of "c_name crow" 0 "next_msg_id s2"
              "make_chunks FILE_MAX_SIZE_BYTES payload"]
      by (auto simp: msgs_def)
    have media: "concat (map msg_media msgs) = payload"
      by (simp add: msgs_def chunk_messages_media concat_make_chunks FILE_MAX_SIZE_BYTES_def)
    have mids: "map msg_id msgs = [next_msg_id s0 ..< next_msg_id s0 + length msgs]"
      using chunk_messages_length [of "c_name crow" 0 "next_msg_id s2"
              "make_chunks FILE_MAX_SIZE_BYTES payload"]
      by (simp add: msgs_def chunk_messages_ids n2)
    have dist: "distinct (map msg_id msgs)"
      by (simp add: mids)
    have old: "\<forall>x \<in> set (channel s0). msg_id x \<notin> set (map msg_id msgs)"
      using chan by (auto simp: mids)
    have "select_messages fh (db s2) = []"
      using m1 by (simp add: s2_def)
    then have "channel s3 = channel s0 @ msgs"
      by (simp add: ch3 ch2)
    then have ch4: "channel s4 = channel s0 @ msgs"
      by (simp add: s4_def)
    have gm: "map (\<lambda>i. find (\<lambda>m. msg_id m = i) (channel s4)) (map msg_id msgs) = map Some msgs"
      unfolding ch4 using dist old by (rule get_messages_uploaded)
    have e4: "encryption_key s4 = encryption_key s0"
      by (simp add: s4_def e3 e2)
    have k4': "encryption_key s4 = None \<and> B = concat (map msg_media msgs)
               \<or> (\<exists>f. encryption_key s4 = Some f
                       \<and> decrypt f (concat (map msg_media msgs)) = Some B)"
      using pl by (auto simp: e4 media)
    have fit4: "length B \<le> cache_maxsize s4"
      using fits by (simp add: s4_def mx3 mx2)
    have "fst (read fh 0 (length B) s4) = Inr (take (length B) (drop 0 B))"
      using i4 k4 m4 ne gm k4' fit4 by (rule read_after_flush)
    then have "fst (read fh 0 (length B) s4) = Inr B"
      by simp
    then obtain s5 where "read fh 0 (length B) s4 = (Inr B, s5)"
      using read_run by blast
    with wr rl op show ?thesis
      by blast
  qed
qed

lemma fs0_key_eval: "fs0_key = fs0\<lparr>encryption_key := Some tag_fernet\<rparr>"
  by (simp add: fs0_key_def fs0_def mount_def new_fs_def init_tables_def monad_defs db_defs)

lemma create_in_fs0_key:
  "create ROOT_INODE ''f'' 33188 0 ctx0 5 fs0_key =
     (Inr (2, entry_created), fs_created\<lparr>encryption_key := Some tag_fernet\<rparr>)"
  by (simp add: fs0_key_eval fs_created_eval fs0_eval entry_created_def ctx0_def monad_defs
        db_defs getattr_def no_row_is_ENOENT_def create'_def create_def incr_open_count_def
        ROOT_INODE_def)

theorem write_release_read_round_trip_witness:
  "fst (create ROOT_INODE ''f'' 33188 0 ctx0 5 fs0_key) = Inr (2, entry_created)
   \<and> encryption_key fs0_key = Some tag_fernet
   \<and> encrypt tag_fernet ''hello'' = Some ''#hello''
   \<and> decrypt tag_fernet ''#hello'' = Some ''hello''
   \<and> (\<exists>s2 s3 s4 s5.
         write_op 2 0 ''hello'' (snd (create ROOT_INODE ''f'' 33188 0 ctx0 5 fs0_key))
           = (Inr 5, s2)
       \<and> release 2 s2 = (Inr (), s3)
       \<and> open_op 2 0 s3 = (Inr 2, s4)
       \<and> read 2 0 5 s4 = (Inr ''hello'', s5))"
proof -
  have k: "encryption_key fs0_key = Some tag_fernet"
    by (simp add: fs0_key_eval)
  have e: "encrypt tag_fernet ''hello'' = Some ''#hello''"
    and d: "decrypt tag_fernet ''#hello'' = Some ''hello''"
    by (simp_all add: tag_fernet_def)
  have h1: "create ROOT_INODE ''f'' 33188 0 ctx0 5 fs0_key =
              (Inr (2, entry_created), snd (create ROOT_INODE ''f'' 33188 0 ctx0 5 fs0_key))"
    by (simp add: create_in_fs0_key)
  have h2: "utf8_valid (map of_char ''f'')"
    by simp
  have h3: "write_buffer fs0_key = []"
    by (simp add: fs0_key_eval fs0_eval)
  have h4: "2 \<notin> set (map fst (cached_files fs0_key))"
    by (simp add: fs0_key_eval fs0_eval)
  have h5: "select_messages 2 (db fs0_key) = []"
    by (simp add: fs0_key_eval fs0_eval select_messages_def)
  have h6: "select_contents_inode 2 (db fs0_key) = []"
    by (simp add: fs0_key_eval fs0_eval select_contents_inode_def)
  have h7: "\<forall>r \<in> set (telegram_messages (db fs0_key)). m_id r < next_msg_id fs0_key"
    by (simp add: fs0_key_eval fs0_eval)
  have h8: "\<forall>m \<in> set (channel fs0_key). msg_id m < next_msg_id fs0_key"
    by (simp add: fs0_key_eval fs0_eval)
  have h9: "\<forall>f. encryption_key fs0_key = Some f
              \<longrightarrow> (\<exists>token. encrypt f ''hello'' = Some token \<and> decrypt f token = Some ''hello'')"
    using e d by (simp add: k)
  have h10: "length ''hello'' \<le> cache_maxsize fs0_key"
    by (simp add: fs0_key_eval fs0_eval)
  have len: "length ''hello'' = 5"
    by simp
  from write_release_read_round_trip [OF h1 h2 h3 h4 h5 h6 h7 h8 h9 h10, of 0, unfolded len]
    k e d
  show ?thesis
    by (simp add: create_in_fs0_key)
qed

subsection \<open>The root invariant is kept\<close>


















lemma root_dotdot_key: "root_dotdot r \<Longrightarrow> contents_key r = (''..'', ROOT_INODE)"
  by (simp add: root_dotdot_def contents_key_def)





subsubsection \<open>The client\<close>










subsubsection \<open>What the handlers learn about the root\<close>



lemma getattr_result:
  assumes "getattr ino s = (Inr entry, s')"
  shows "st_ino entry = ino"
    and "st_nlink entry = length (filter (\<lambda>r. c_inode r = ino) (contents (db s)))"
  using assms
  by (auto simp: getattr_def no_row_is_ENOENT_def monad_defs get_row_def
        count_contents_inode_def split: list.splits if_splits)

lemma lookup_result:
  assumes "lookup p nm s = (Inr entry, s')"
  shows "\<exists>r. select_contents_name nm p (db s) = [r] \<and> st_ino entry = c_inode r"
proof -
  from assms obtain ino s1 where
    a: "no_row_is_ENOENT
          (bindM (get_row (select_contents_name nm p)) (\<lambda>r. returnM (c_inode r))) s
        = (Inr ino, s1)"
    and g: "getattr ino s1 = (Inr entry, s')"
    by (auto simp: lookup_def bytes_eq_str_def bindM_def split: sum.splits prod.splits)
  from a have "\<exists>r. select_contents_name nm p (db s) = [r] \<and> ino = c_inode r"
    by (auto simp: no_row_is_ENOENT_def monad_defs get_row_def split: list.splits if_splits)
  with getattr_result(1) [OF g] show ?thesis
    by auto
qed





subsubsection \<open>The handlers\<close>


























text \<open>
  A rename of the root's own \<^verbatim>\<open>..\<close> entry that succeeds always ends the invariant: the
  hypothesis of the theorem below leaves out no more than it must.
\<close>

lemma rename_of_root_dotdot_ends_invariant:
  assumes "fst (rename ROOT_INODE ''..'' p_new name_new flags s) = Inr ()"
  shows "\<not> root_invariant (snd (rename ROOT_INODE ''..'' p_new name_new flags s))"
proof -
  from assms have fl: "flags = 0"
    by (auto simp: rename_def raiseM_def split: if_splits)
  obtain r1 where l1: "lookup ROOT_INODE ''..'' s = (r1, s)"
    using lookup_run [OF refl] by blast
  obtain r2 where l2: "lookup p_new name_new s = (r2, s)"
    using lookup_run [OF refl] by blast
  from assms fl l1 obtain entry_old where old: "r1 = Inr entry_old"
    by (cases r1) (auto simp: rename_def bindM_def)
  from lookup_result [OF l1 [unfolded old]] obtain r where
    r: "select_contents_name ''..'' ROOT_INODE (db s) = [r]"
    by blast
  have gone: "\<not> list_ex root_dotdot (filter (\<lambda>r. contents_key r \<noteq> (''..'', ROOT_INODE)) rows)"
    for rows
    by (auto simp: list_ex_iff root_dotdot_key)
  have "\<not> list_ex root_dotdot
              (contents (db (snd (rename ROOT_INODE ''..'' p_new name_new flags s))))"
  proof (cases r2)
    case new: (Inr entry_new)
    have eq: "rename ROOT_INODE ''..'' p_new name_new flags s =
                replace' ROOT_INODE ''..'' p_new name_new entry_old entry_new s"
      using fl l1 l2 old new by (simp add: rename_def bindM_def try_except_def returnM_def)
    have "\<exists>rows. contents (db (snd (replace' ROOT_INODE ''..'' p_new name_new
                                        entry_old entry_new s)))
                   = filter (\<lambda>r. contents_key r \<noteq> (''..'', ROOT_INODE)) rows"
      using assms [unfolded eq]
      by (auto simp: replace'_def monad_defs get_row_def count_contents_parent_def
            cursor_execute_def db_execute_def commit_def delete_msgs_for_inode_def
            delete_messages_def
          split: if_splits)
    with gone show ?thesis
      by (auto simp: eq)
  next
    case (Inl e2)
    let ?rows = "map (\<lambda>r. if contents_key r = (''..'', ROOT_INODE)
                            then r\<lparr>c_name := name_new, c_parent_inode := p_new\<rparr> else r)
                     (contents (db s))"
    from assms fl l1 l2 old Inl have e2: "e2 = FUSEError ENOENT"
      by (auto simp: rename_def monad_defs split: if_splits)
    have ne: "(name_new, p_new) \<noteq> (''..'', ROOT_INODE)"
      using l1 l2 old Inl by auto
    have "r \<in> set (filter (\<lambda>r. contents_key r = (''..'', ROOT_INODE)) (contents (db s)))"
      using r by (simp add: select_contents_name_def)
    then have rin: "r \<in> set (contents (db s))" and rkey: "contents_key r = (''..'', ROOT_INODE)"
      by simp_all
    have changed: "?rows \<noteq> contents (db s)"
    proof
      assume eq: "?rows = contents (db s)"
      from rin obtain i where i: "i < length (contents (db s))" "contents (db s) ! i = r"
        by (auto simp: in_set_conv_nth)
      then have "?rows ! i = r\<lparr>c_name := name_new, c_parent_inode := p_new\<rparr>"
        using rkey by simp
      with eq i have "r\<lparr>c_name := name_new, c_parent_inode := p_new\<rparr> = r"
        by simp
      then have "contents_key (r\<lparr>c_name := name_new, c_parent_inode := p_new\<rparr>)
                   = contents_key r"
        by simp
      with ne rkey show False
        by (simp add: contents_key_def)
    qed
    have none: "\<not> list_ex root_dotdot ?rows"
      using ne by (auto simp: list_ex_iff root_dotdot_def contents_key_def)
    have "contents (db (snd (rename ROOT_INODE ''..'' p_new name_new flags s))) = ?rows"
      using assms fl l1 l2 old Inl e2 changed
      by (auto simp: rename_def monad_defs cursor_execute_def commit_def Let_def
            split: if_splits)
    with none show ?thesis
      by simp
  qed
  then show ?thesis
    by (simp add: root_invariant_def)
qed



end
